theory Spec2Isabelle
  imports
    Complex_Main
    "HOL-Library.Product_Lexorder"
    "HOL-Library.List_Lexorder"
    "HOL-Library.Char_ord"
    "HOL-Library.Multiset"
begin

section \<open>Data model\<close>

text \<open>
  The program keeps its state in an SQLite database and passes dates around as
  \<^verbatim>\<open>'YYYY-MM-DD'\<close> strings, which SQLite compares as text. A date is modelled as the
  triple (year, month, day) under the lexicographic order, which is the order of the
  zero-padded strings; \<^verbatim>\<open>pd.to_datetime(date).day\<close> is the third component.
\<close>

type_synonym date = "int \<times> int \<times> int"

definition day :: "date \<Rightarrow> int" where
  "day dt = snd (snd dt)"

text \<open>
  \<^verbatim>\<open>type_operation TEXT CHECK(type_operation IN ('achat', 'vente'))\<close> and
  \<^verbatim>\<open>type TEXT CHECK(type IN ('Stock', 'Bond', 'ETF'))\<close> in \<^verbatim>\<open>database_manager.py\<close>.
\<close>

datatype operation = achat | vente

datatype asset_type = Stock | Bond | ETF

text \<open>
  A Python float is a real number or NaN (\<open>None\<close>): pandas produces NaN for the first
  log return of a series, for the mean of no values and for the standard deviation of
  fewer than two values. Finite floats are idealised as reals; rounding is not modelled.
\<close>

type_synonym pyfloat = "real option"

text \<open>Table \<^verbatim>\<open>Products\<close>: \<^verbatim>\<open>id INTEGER PRIMARY KEY\<close>, \<^verbatim>\<open>ticker TEXT UNIQUE NOT NULL\<close>.\<close>

record product =
  prod_id :: int
  ticker :: string
  ptype :: asset_type

text \<open>Table \<^verbatim>\<open>Deals\<close>; the list is in rowid (insertion) order.\<close>

record deal =
  portefeuille_id :: int
  produit_id :: int
  type_operation :: operation
  quantite :: int
  date :: date
  volatilite_periode :: pyfloat
  rendement_periode :: pyfloat

text \<open>Table \<^verbatim>\<open>Returns\<close>: \<^verbatim>\<open>return REAL NOT NULL\<close>, \<^verbatim>\<open>volatilite REAL\<close> (nullable).\<close>

record returns_row =
  product_id :: int
  rdate :: date
  rreturn :: real
  volatilite :: pyfloat

text \<open>
  A row of a per-ticker price table \<^verbatim>\<open>{ticker}_data\<close> (columns \<^verbatim>\<open>Date\<close>, \<^verbatim>\<open>Close\<close>,
  \<^verbatim>\<open>Returns\<close>; a NULL is \<open>None\<close>).
\<close>

record price_row =
  pdate :: date
  Close :: pyfloat
  Returns :: pyfloat

text \<open>
  The database. \<open>Market t = None\<close> says that the table \<^verbatim>\<open>{t}_data\<close> does not exist,
  in which case querying it raises.
\<close>

record db =
  Products :: "product list"
  Deals :: "deal list"
  ReturnsTab :: "returns_row list"
  Market :: "string \<Rightarrow> price_row list option"

datatype error = TypeError | ValueError | OverflowError | DatabaseError

text \<open>A decision tuple \<^verbatim>\<open>(portfolio_id, ticker, type_operation, quantity)\<close>.\<close>

type_synonym decision = "int \<times> string \<times> operation \<times> int"

text \<open>
  The \<^verbatim>\<open>data\<close> argument of the strategies: a dict (in insertion order) from ticker to a
  DataFrame, of which the strategies read only the \<^verbatim>\<open>Returns\<close> column, most recent row
  first. \<open>None\<close> is a frame without that column, \<open>Some []\<close> an empty frame.
\<close>

type_synonym df = "pyfloat list option"

section \<open>Float and pandas helpers\<close>

text \<open>Comparisons with NaN are false.\<close>

definition flt :: "pyfloat \<Rightarrow> pyfloat \<Rightarrow> bool" where
  "flt a b = (case (a, b) of (Some x, Some y) \<Rightarrow> x < y | _ \<Rightarrow> False)"

definition fgt :: "pyfloat \<Rightarrow> pyfloat \<Rightarrow> bool" where
  "fgt a b = flt b a"

definition fmul :: "pyfloat \<Rightarrow> real \<Rightarrow> pyfloat" where
  "fmul a c = map_option (\<lambda>x. x * c) a"

text \<open>\<^verbatim>\<open>int(x)\<close> on a finite float truncates toward zero.\<close>

definition py_int :: "real \<Rightarrow> int" where
  "py_int x = (if 0 \<le> x then \<lfloor>x\<rfloor> else \<lceil>x\<rceil>)"

text \<open>The values of a column that are not NaN (\<^verbatim>\<open>skipna=True\<close>).\<close>

definition valid :: "pyfloat list \<Rightarrow> real list" where
  "valid xs = [v. Some v \<leftarrow> xs]"

text \<open>\<^verbatim>\<open>Series.mean()\<close>: the mean of the values that are not NaN, NaN if there are none.\<close>

definition mean :: "pyfloat list \<Rightarrow> pyfloat" where
  "mean xs = (let vs = valid xs in
     if vs = [] then None else Some (sum_list vs / real (length vs)))"

text \<open>
  \<^verbatim>\<open>Series.std()\<close>: the sample standard deviation (\<^verbatim>\<open>ddof=1\<close>) of the values that are
  not NaN, NaN if there are fewer than two.
\<close>

definition std :: "pyfloat list \<Rightarrow> pyfloat" where
  "std xs = (let vs = valid xs; n = length vs in
     if n < 2 then None
     else let m = sum_list vs / real n in
       Some (sqrt (sum_list (map (\<lambda>v. (v - m)\<^sup>2) vs) / real (n - 1))))"

section \<open>Position of one instrument (\<^verbatim>\<open>strategies.py\<close>)\<close>

definition signed_quantity :: "deal \<Rightarrow> int" where
  "signed_quantity d = (case type_operation d of achat \<Rightarrow> quantite d | vente \<Rightarrow> - quantite d)"

text \<open>
  \<^verbatim>\<open>get_current_position\<close>: the rows of \<^verbatim>\<open>Deals d JOIN Products p ON d.produit_id = p.id\<close>
  with the portfolio, the ticker and \<^verbatim>\<open>d.date <= ?\<close>, summed with sign; \<^verbatim>\<open>COALESCE\<close>
  turns the NULL sum of no rows into 0.
\<close>

definition position_rows :: "db \<Rightarrow> int \<Rightarrow> string \<Rightarrow> date \<Rightarrow> deal list" where
  "position_rows s pid tk asof =
     [d. d \<leftarrow> Deals s, p \<leftarrow> Products s,
         produit_id d = prod_id p \<and> portefeuille_id d = pid \<and> ticker p = tk \<and> date d \<le> asof]"

definition get_current_position :: "db \<Rightarrow> int \<Rightarrow> string \<Rightarrow> date \<Rightarrow> int" where
  "get_current_position s pid tk asof = sum_list (map signed_quantity (position_rows s pid tk asof))"

section \<open>Low-turnover strategy\<close>

text \<open>
  \<^verbatim>\<open>random.randint(15, 25)\<close> is drawn at most once per call, in the branch that emits
  the single decision; the draw is the parameter \<open>r\<close>.
\<close>

fun low_turnover_scan :: "int \<Rightarrow> db \<Rightarrow> int \<Rightarrow> date \<Rightarrow> (string \<times> df) list \<Rightarrow> decision list" where
  "low_turnover_scan r s pid dt [] = []"
| "low_turnover_scan r s pid dt ((tk, None) # rest) = low_turnover_scan r s pid dt rest"
| "low_turnover_scan r s pid dt ((tk, Some rs) # rest) =
     (if rs = [] then low_turnover_scan r s pid dt rest
      else
        let returns_5d = mean (take 5 rs);
            returns_20d = mean (take 20 rs);
            current_position = get_current_position s pid tk dt
        in
          if current_position > 0 then
            (if flt returns_5d (fmul returns_20d 0.90)
             then [(pid, tk, vente, min current_position r)]
             else low_turnover_scan r s pid dt rest)
          else
            (if fgt returns_5d (fmul returns_20d 1.10)
             then [(pid, tk, achat, r)]
             else low_turnover_scan r s pid dt rest))"

definition week_number :: "date \<Rightarrow> int" where
  "week_number dt = (day dt - 1) div 7 + 1"

definition trades_this_week :: "db \<Rightarrow> int \<Rightarrow> date \<Rightarrow> nat" where
  "trades_this_week s pid dt = length [d. d \<leftarrow> Deals s, portefeuille_id d = pid \<and> date d = dt]"

definition apply_low_turnover_strategy ::
    "int \<Rightarrow> db \<Rightarrow> (string \<times> df) list \<Rightarrow> int \<Rightarrow> date \<Rightarrow> decision list" where
  "apply_low_turnover_strategy r s data pid dt =
     (if week_number dt \<notin> {1, 3} then []
      else if trades_this_week s pid dt > 0 then []
      else low_turnover_scan r s pid dt data)"

section \<open>Conservative ("Low risk") and high-yield strategies\<close>

definition target_volatility :: real where
  "target_volatility = 0.10"

text \<open>\<^verbatim>\<open>SELECT type FROM Products WHERE ticker = ?\<close>, \<^verbatim>\<open>fetchone()\<close>.\<close>

definition product_type :: "db \<Rightarrow> string \<Rightarrow> asset_type option" where
  "product_type s tk =
     (case filter (\<lambda>p. ticker p = tk) (Products s) of [] \<Rightarrow> None | p # _ \<Rightarrow> Some (ptype p))"

text \<open>
  \<^verbatim>\<open>int(c / (volatility * 100))\<close>. The volatility is a numpy float: dividing by a zero
  one gives \<^verbatim>\<open>inf\<close> (with a warning), and \<^verbatim>\<open>int(inf)\<close> raises \<^verbatim>\<open>OverflowError\<close>;
  \<^verbatim>\<open>int(nan)\<close> raises \<^verbatim>\<open>ValueError\<close>.
\<close>

fun position_size_of :: "real \<Rightarrow> pyfloat \<Rightarrow> error + int" where
  "position_size_of c None = Inl ValueError"
| "position_size_of c (Some volatility) =
     (if volatility * 100 = 0 then Inl OverflowError
      else Inr (py_int (c / (volatility * 100))))"

text \<open>
  The branch of \<^verbatim>\<open>apply_low_risk_strategy\<close> that decides for one instrument, given
  its position, its type and the three statistics of its returns: the decisions it
  appends (none or one), or the exception it raises.
\<close>

definition low_risk_decision ::
    "int \<Rightarrow> string \<Rightarrow> asset_type \<Rightarrow> int \<Rightarrow> pyfloat \<Rightarrow> pyfloat \<Rightarrow> pyfloat \<Rightarrow> error + decision list" where
  "low_risk_decision pid tk asset_type current_position returns_10d returns_30d volatility =
     (if current_position > 0 then
        (if (flt returns_30d (Some (- 0.02)) \<and> asset_type = Stock) \<or>
            (flt returns_30d (Some (- 0.01)) \<and> asset_type = Bond) \<or>
            fgt volatility (Some (target_volatility * 1.5))
         then
           let quantity =
                 min current_position (max 5 (py_int (real_of_int current_position * 0.25)))
           in Inr [(pid, tk, vente, quantity)]
         else Inr [])
      else
        (if fgt returns_10d (Some 0) \<and> fgt returns_30d (Some 0) \<and>
            flt volatility (Some (target_volatility * 1.2))
         then
           (case position_size_of 10000 volatility of
              Inl e \<Rightarrow> Inl e
            | Inr position_size \<Rightarrow> Inr [(pid, tk, achat, max 5 (min 20 position_size))])
         else Inr []))"

text \<open>
  The loop of \<^verbatim>\<open>apply_low_risk_strategy\<close> over \<^verbatim>\<open>data.items()\<close>. The portfolio
  volatility that the source computes before the loop is never read again and is left out.
  \<^verbatim>\<open>fetchone()[0]\<close> on a ticker without a product raises \<^verbatim>\<open>TypeError\<close>.
\<close>

fun low_risk_loop ::
    "db \<Rightarrow> int \<Rightarrow> date \<Rightarrow> (string \<times> df) list \<Rightarrow> decision list \<Rightarrow> error + decision list" where
  "low_risk_loop s pid dt [] decisions = Inr decisions"
| "low_risk_loop s pid dt ((tk, None) # rest) decisions = low_risk_loop s pid dt rest decisions"
| "low_risk_loop s pid dt ((tk, Some rs) # rest) decisions =
     (if rs = [] then low_risk_loop s pid dt rest decisions
      else
        let returns_10d = mean (take 10 rs);
            returns_30d = mean (take 30 rs);
            volatility = fmul (std (take 30 rs)) (sqrt 252);
            current_position = get_current_position s pid tk dt
        in
          case product_type s tk of
            None \<Rightarrow> Inl TypeError
          | Some asset_type \<Rightarrow>
              (case low_risk_decision pid tk asset_type current_position
                      returns_10d returns_30d volatility of
                 Inl e \<Rightarrow> Inl e
               | Inr new \<Rightarrow> low_risk_loop s pid dt rest (decisions @ new)))"

definition apply_low_risk_strategy ::
    "db \<Rightarrow> (string \<times> df) list \<Rightarrow> int \<Rightarrow> date \<Rightarrow> error + decision list" where
  "apply_low_risk_strategy s data pid dt = low_risk_loop s pid dt data []"

definition max_position_size :: int where
  "max_position_size = 25"

text \<open>The deciding branch of \<^verbatim>\<open>apply_high_yield_strategy\<close>, and its loop.\<close>

definition high_yield_decision ::
    "int \<Rightarrow> string \<Rightarrow> int \<Rightarrow> pyfloat \<Rightarrow> pyfloat \<Rightarrow> pyfloat \<Rightarrow> pyfloat \<Rightarrow> error + decision list" where
  "high_yield_decision pid tk current_position returns_5d returns_10d returns_30d volatility =
     (if current_position > 0 then
        (if flt returns_30d (Some (- 0.07)) \<or>
            (flt returns_5d (Some 0) \<and> flt returns_10d (Some 0) \<and> flt returns_30d (Some 0))
         then
           let quantity =
                 min current_position (max 5 (py_int (real_of_int current_position * 0.75)))
           in Inr [(pid, tk, vente, quantity)]
         else Inr [])
      else
        (if fgt returns_5d (Some 0) \<and> fgt returns_10d (Some 0) \<and> fgt returns_30d (Some 0) \<and>
            flt volatility (Some 0.40)
         then
           (case position_size_of 15000 volatility of
              Inl e \<Rightarrow> Inl e
            | Inr position_size \<Rightarrow>
                Inr [(pid, tk, achat, max 5 (min max_position_size position_size))])
         else Inr []))"

fun high_yield_loop ::
    "db \<Rightarrow> int \<Rightarrow> date \<Rightarrow> (string \<times> df) list \<Rightarrow> decision list \<Rightarrow> error + decision list" where
  "high_yield_loop s pid dt [] decisions = Inr decisions"
| "high_yield_loop s pid dt ((tk, None) # rest) decisions = high_yield_loop s pid dt rest decisions"
| "high_yield_loop s pid dt ((tk, Some rs) # rest) decisions =
     (if rs = [] then high_yield_loop s pid dt rest decisions
      else
        let returns_5d = mean (take 5 rs);
            returns_10d = mean (take 10 rs);
            returns_30d = mean (take 30 rs);
            volatility = fmul (std (take 30 rs)) (sqrt 252);
            current_position = get_current_position s pid tk dt
        in
          case high_yield_decision pid tk current_position
                 returns_5d returns_10d returns_30d volatility of
            Inl e \<Rightarrow> Inl e
          | Inr new \<Rightarrow> high_yield_loop s pid dt rest (decisions @ new))"

definition apply_high_yield_strategy ::
    "db \<Rightarrow> (string \<times> df) list \<Rightarrow> int \<Rightarrow> date \<Rightarrow> error + decision list" where
  "apply_high_yield_strategy s data pid dt = high_yield_loop s pid dt data []"

section \<open>Deal recorder (\<^verbatim>\<open>store_deals\<close>)\<close>

text \<open>\<^verbatim>\<open>SELECT id FROM Products WHERE ticker = ?\<close>, \<^verbatim>\<open>fetchone()\<close>.\<close>

definition find_product_id :: "db \<Rightarrow> string \<Rightarrow> int option" where
  "find_product_id s tk =
     (case filter (\<lambda>p. ticker p = tk) (Products s) of [] \<Rightarrow> None | p # _ \<Rightarrow> Some (prod_id p))"

definition same_key :: "int \<Rightarrow> int \<Rightarrow> date \<Rightarrow> operation \<Rightarrow> deal \<Rightarrow> bool" where
  "same_key pid prid dt opn d \<longleftrightarrow>
     portefeuille_id d = pid \<and> produit_id d = prid \<and> date d = dt \<and> type_operation d = opn"

definition existing :: "db \<Rightarrow> int \<Rightarrow> int \<Rightarrow> date \<Rightarrow> operation \<Rightarrow> nat" where
  "existing s pid prid dt opn = length (filter (same_key pid prid dt opn) (Deals s))"

text \<open>
  The annotation query: the 20 most recent rows of \<^verbatim>\<open>Returns\<close> for the product with
  \<^verbatim>\<open>date <= ?\<close>. (Among rows of one date SQLite's order is not specified; the stable
  sort stands for it.)
\<close>

definition trailing_rows :: "db \<Rightarrow> int \<Rightarrow> date \<Rightarrow> returns_row list" where
  "trailing_rows s prid dt =
     take 20 (rev (sort_key rdate (filter (\<lambda>r. product_id r = prid \<and> rdate r \<le> dt) (ReturnsTab s))))"

definition new_deal :: "db \<Rightarrow> int \<Rightarrow> int \<Rightarrow> operation \<Rightarrow> int \<Rightarrow> date \<Rightarrow> deal" where
  "new_deal s pid prid opn q dt =
     (let rows = trailing_rows s prid dt in
      \<lparr> portefeuille_id = pid, produit_id = prid, type_operation = opn, quantite = q, date = dt,
        volatilite_periode = (if rows = [] then None else mean (map volatilite rows)),
        rendement_periode = (if rows = [] then None else mean (map (\<lambda>r. Some (rreturn r)) rows)) \<rparr>)"

text \<open>
  The loop of \<^verbatim>\<open>store_deals\<close>. Every value bound in the \<^verbatim>\<open>INSERT\<close> satisfies the
  table's constraints, so the \<^verbatim>\<open>except\<close> branch (print and go on) has nothing to catch.
\<close>

fun store_deals_loop :: "db \<Rightarrow> date \<Rightarrow> decision list \<Rightarrow> db" where
  "store_deals_loop s dt [] = s"
| "store_deals_loop s dt ((pid, tk, opn, q) # rest) =
     (case find_product_id s tk of
        None \<Rightarrow> store_deals_loop s dt rest
      | Some prid \<Rightarrow>
          if existing s pid prid dt opn = 0
          then store_deals_loop (s\<lparr>Deals := Deals s @ [new_deal s pid prid opn q dt]\<rparr>) dt rest
          else store_deals_loop s dt rest)"

definition store_deals :: "db \<Rightarrow> decision list \<Rightarrow> date \<Rightarrow> db" where
  "store_deals s deals dt = (if deals = [] then s else store_deals_loop s dt deals)"

section \<open>Positions of a portfolio (\<^verbatim>\<open>performances.py\<close>)\<close>

text \<open>A row of the common table expression \<^verbatim>\<open>DailyPositions\<close>.\<close>

record dp_row =
  dp_produit_id :: int
  dp_ticker :: string
  dp_type :: asset_type
  dp_date :: date
  dp_type_operation :: operation
  dp_quantite :: int
  running_position :: int

text \<open>\<^verbatim>\<open>FROM Deals d JOIN Products pr ON d.produit_id = pr.id WHERE d.portefeuille_id = ? AND d.date <= ?\<close>\<close>

definition joined :: "db \<Rightarrow> int \<Rightarrow> date \<Rightarrow> (deal \<times> product) list" where
  "joined s pid asof =
     [(d, pr). d \<leftarrow> Deals s, pr \<leftarrow> Products s,
               produit_id d = prod_id pr \<and> portefeuille_id d = pid \<and> date d \<le> asof]"

text \<open>\<^verbatim>\<open>CASE WHEN d.type_operation = 'achat' THEN d.quantite ELSE -d.quantite END\<close>\<close>

definition delta :: "deal \<Rightarrow> int" where
  "delta d = (if type_operation d = achat then quantite d else - quantite d)"

text \<open>
  \<^verbatim>\<open>SUM(...) OVER (PARTITION BY d.produit_id ORDER BY d.date)\<close>: with an \<^verbatim>\<open>ORDER BY\<close> and
  no frame clause the frame runs from the start of the partition to the last peer of the
  current row, so the sum is over the rows of the product dated up to the row's date.
\<close>

definition running :: "(deal \<times> product) list \<Rightarrow> deal \<Rightarrow> int" where
  "running j d =
     sum_list [delta d'. (d', pr') \<leftarrow> j, produit_id d' = produit_id d \<and> date d' \<le> date d]"

text \<open>
  The rows leave the window step by partition and, inside a partition, by date; the
  \<^verbatim>\<open>ORDER BY d.date\<close> of the common table expression then sorts them by date. Both
  sorts are stable.
\<close>

definition DailyPositions :: "db \<Rightarrow> int \<Rightarrow> date \<Rightarrow> dp_row list" where
  "DailyPositions s pid asof =
     (let j = joined s pid asof in
      sort_key dp_date
        (sort_key (\<lambda>r. (dp_produit_id r, dp_date r))
          [\<lparr> dp_produit_id = produit_id d, dp_ticker = ticker pr, dp_type = ptype pr,
              dp_date = date d, dp_type_operation = type_operation d, dp_quantite = quantite d,
              running_position = running j d \<rparr>. (d, pr) \<leftarrow> j]))"

text \<open>
  The outer query groups by ticker and reads the bare columns \<^verbatim>\<open>type\<close> and
  \<^verbatim>\<open>running_position\<close>, in the select list and in \<^verbatim>\<open>HAVING\<close>, of one row of each group.
  SQLite documents that row as arbitrarily chosen; \<open>pick\<close> is that choice, given the
  group's rows in the order in which the grouping step meets them (by ticker, stable).
  The result is ordered by ticker.
\<close>

definition get_portfolio_positions ::
    "(dp_row list \<Rightarrow> dp_row) \<Rightarrow> db \<Rightarrow> int \<Rightarrow> date \<Rightarrow> (string \<times> asset_type \<times> int) list" where
  "get_portfolio_positions pick s pid asof =
     (let rows = filter (\<lambda>r. dp_date r \<le> asof) (DailyPositions s pid asof) in
      [(dp_ticker g, dp_type g, running_position g).
         t \<leftarrow> sort (remdups (map dp_ticker rows)),
         g \<leftarrow> [pick (filter (\<lambda>r. dp_ticker r = t) rows)],
         running_position g > 0])"

text \<open>
  SQLite's code generator loads the bare columns of an aggregate query without \<^verbatim>\<open>min\<close>
  or \<^verbatim>\<open>max\<close> when it meets the first row of a group and skips them for the later rows,
  so the row it reads is the first one of the group.
\<close>

definition sqlite_bare_row :: "dp_row list \<Rightarrow> dp_row" where
  "sqlite_bare_row = hd"

section \<open>Valuation and weekly returns\<close>

text \<open>
  \<^verbatim>\<open>get_asset_price_and_return\<close>: the most recent row dated up to the date. No row gives
  \<^verbatim>\<open>(None, None)\<close>, here \<open>None\<close>; a NULL price makes \<^verbatim>\<open>float(None)\<close> raise; a NULL
  return counts as 0.
\<close>

definition get_asset_price_and_return :: "db \<Rightarrow> string \<Rightarrow> date \<Rightarrow> error + (real \<times> real) option" where
  "get_asset_price_and_return s tk dt =
     (case Market s tk of
        None \<Rightarrow> Inl DatabaseError
      | Some tab \<Rightarrow>
          (case rev (sort_key pdate (filter (\<lambda>r. pdate r \<le> dt) tab)) of
             [] \<Rightarrow> Inr None
           | r # _ \<Rightarrow>
               (case Close r of
                  None \<Rightarrow> Inl TypeError
                | Some price \<Rightarrow>
                    Inr (Some (price, (case Returns r of None \<Rightarrow> 0 | Some x \<Rightarrow> x))))))"

fun value_loop ::
    "db \<Rightarrow> date \<Rightarrow> (string \<times> asset_type \<times> int) list \<Rightarrow> real \<Rightarrow> real \<Rightarrow> error + (real \<times> real)" where
  "value_loop s dt [] total_value weighted_return = Inr (total_value, weighted_return)"
| "value_loop s dt ((tk, ty, pos) # rest) total_value weighted_return =
     (case get_asset_price_and_return s tk dt of
        Inl e \<Rightarrow> Inl e
      | Inr None \<Rightarrow> value_loop s dt rest total_value weighted_return
      | Inr (Some (price, daily_return)) \<Rightarrow>
          let position_value = price * real_of_int pos in
          value_loop s dt rest (total_value + position_value)
            (weighted_return + position_value * daily_return))"

definition get_portfolio_value_and_return ::
    "(dp_row list \<Rightarrow> dp_row) \<Rightarrow> db \<Rightarrow> int \<Rightarrow> date \<Rightarrow> error + (real \<times> real)" where
  "get_portfolio_value_and_return pick s pid dt =
     (let positions = get_portfolio_positions pick s pid dt in
      if positions = [] then Inr (0, 0)
      else
        (case value_loop s dt positions 0 0 of
           Inl e \<Rightarrow> Inl e
         | Inr (total_value, weighted_return) \<Rightarrow>
             Inr (total_value, if total_value > 0 then weighted_return / total_value else 0)))"

text \<open>\<^verbatim>\<open>np.clip(x, lo, hi)\<close>\<close>

definition clip :: "real \<Rightarrow> real \<Rightarrow> real \<Rightarrow> real" where
  "clip x lo hi = min (max x lo) hi"

record sample =
  sdate :: date
  sreturn :: real
  svalue :: real

text \<open>
  The loop of \<^verbatim>\<open>get_weekly_returns\<close> over the Mondays of the range;
  \<^verbatim>\<open>get_mondays_between_dates\<close> (pandas' calendar) is not modelled and its result is the
  argument \<open>mondays\<close>.
\<close>

fun weekly_loop ::
    "(dp_row list \<Rightarrow> dp_row) \<Rightarrow> db \<Rightarrow> int \<Rightarrow> date list \<Rightarrow> real option \<Rightarrow> sample list
       \<Rightarrow> error + sample list" where
  "weekly_loop pick s pid [] previous_value weekly_returns = Inr weekly_returns"
| "weekly_loop pick s pid (monday # rest) previous_value weekly_returns =
     (case get_portfolio_value_and_return pick s pid monday of
        Inl e \<Rightarrow> Inl e
      | Inr (v, daily_return) \<Rightarrow>
          weekly_loop pick s pid rest
            (if v > 0 then Some v else previous_value)
            (case previous_value of
               None \<Rightarrow> weekly_returns
             | Some pv \<Rightarrow>
                 if pv > 0
                 then weekly_returns @
                        [\<lparr> sdate = monday, sreturn = clip (v / pv - 1) (- 0.10) 0.10, svalue = v \<rparr>]
                 else weekly_returns))"

definition get_weekly_returns ::
    "(dp_row list \<Rightarrow> dp_row) \<Rightarrow> db \<Rightarrow> int \<Rightarrow> date list \<Rightarrow> error + sample list" where
  "get_weekly_returns pick s pid mondays = weekly_loop pick s pid mondays None []"

section \<open>Performance metrics\<close>

record metrics =
  rendement_total :: real
  rendement_annualise :: real
  volatilite_annualisee :: real
  ratio_sharpe :: real
  drawdown_max :: real
  valeur_finale :: real
  nb_semaines_positives :: nat
  weekly_returns :: "sample list"

definition risk_free_rate :: real where
  "risk_free_rate = 0.02"

text \<open>\<^verbatim>\<open>Series.cumprod()\<close> and \<^verbatim>\<open>Series.expanding().max()\<close>.\<close>

fun cumprod_from :: "real \<Rightarrow> real list \<Rightarrow> real list" where
  "cumprod_from acc [] = []"
| "cumprod_from acc (x # xs) = (acc * x) # cumprod_from (acc * x) xs"

definition cumprod :: "real list \<Rightarrow> real list" where
  "cumprod xs = cumprod_from 1 xs"

fun expanding_max_from :: "real \<Rightarrow> real list \<Rightarrow> real list" where
  "expanding_max_from m [] = []"
| "expanding_max_from m (x # xs) = max m x # expanding_max_from (max m x) xs"

definition expanding_max :: "real list \<Rightarrow> real list" where
  "expanding_max xs = (case xs of [] \<Rightarrow> [] | x # rest \<Rightarrow> x # expanding_max_from x rest)"

definition zero_metrics :: metrics where
  "zero_metrics =
     \<lparr> rendement_total = 0, rendement_annualise = 0, volatilite_annualisee = 0,
       ratio_sharpe = 0, drawdown_max = 0, valeur_finale = 0, nb_semaines_positives = 0,
       weekly_returns = [] \<rparr>"

text \<open>
  The body of \<^verbatim>\<open>calculate_performance_metrics\<close> after the weekly returns are there.
  The power has a positive base, because every clipped return is at least \<open>-0.10\<close>.
\<close>

definition metrics_of :: "sample list \<Rightarrow> metrics" where
  "metrics_of wr =
     (if wr = [] \<or> length wr < 2 then zero_metrics
      else
        let rets = map sreturn wr;
            total = prod_list (map (\<lambda>r. 1 + r) rets) - 1;
            nb_weeks = length wr;
            annualise = (1 + total) powr (52 / real nb_weeks) - 1;
            volatilite_hebdo = std (map Some rets);
            vol = (case volatilite_hebdo of None \<Rightarrow> 0 | Some sd \<Rightarrow> sd * sqrt 52);
            excess_return = annualise - risk_free_rate;
            sharpe = (if vol \<noteq> 0 then excess_return / vol else 0);
            cumulative_returns = cumprod (map (\<lambda>r. 1 + r) rets);
            rolling_max = expanding_max cumulative_returns;
            drawdowns = map (\<lambda>(c, m). c / m - 1) (zip cumulative_returns rolling_max)
        in
          \<lparr> rendement_total = total, rendement_annualise = annualise,
            volatilite_annualisee = vol, ratio_sharpe = sharpe,
            drawdown_max = Min (set drawdowns),
            valeur_finale = svalue (last wr),
            nb_semaines_positives = length (filter (\<lambda>r. r > 0) rets),
            weekly_returns = wr \<rparr>)"

definition calculate_performance_metrics ::
    "(dp_row list \<Rightarrow> dp_row) \<Rightarrow> db \<Rightarrow> int \<Rightarrow> date list \<Rightarrow> error + metrics" where
  "calculate_performance_metrics pick s pid mondays =
     (case get_weekly_returns pick s pid mondays of
        Inl e \<Rightarrow> Inl e
      | Inr wr \<Rightarrow> Inr (metrics_of wr))"

section \<open>Reference notions\<close>

text \<open>
  The sample standard deviation of a list of reals, as the specification's
  \<^verbatim>\<open>stdev(weekly_return)\<close> is read: the square root of the sum of squared deviations
  from the mean over \<open>n - 1\<close>.
\<close>

definition sample_stdev :: "real list \<Rightarrow> real" where
  "sample_stdev rs =
     (let m = sum_list rs / real (length rs) in
      sqrt (sum_list (map (\<lambda>r. (r - m)\<^sup>2) rs) / real (length rs - 1)))"

text \<open>
  A decision is safe in a state at a date when its quantity is positive and, for a
  sale, at most the position of the instrument at that date.
\<close>

definition safe_decision :: "db \<Rightarrow> date \<Rightarrow> decision \<Rightarrow> bool" where
  "safe_decision s dt x = (case x of (p, tk, opn, q) \<Rightarrow>
     0 < q \<and> (opn = vente \<longrightarrow> q \<le> get_current_position s p tk dt))"

text \<open>At most one event per (portfolio, product, date, operation).\<close>

definition unique_events :: "db \<Rightarrow> bool" where
  "unique_events s \<longleftrightarrow> (\<forall>pid prid dt opn. existing s pid prid dt opn \<le> 1)"

text \<open>
  The number of products with a given id and ticker: the number of rows that the join
  of \<^verbatim>\<open>get_current_position\<close> makes of one deal.
\<close>

definition matches :: "db \<Rightarrow> int \<Rightarrow> string \<Rightarrow> nat" where
  "matches s prid tk = length (filter (\<lambda>p. prod_id p = prid \<and> ticker p = tk) (Products s))"

text \<open>
  The invariant of recording decisions that are safe in \<open>s0\<close>: a position that was not
  negative in \<open>s0\<close> is not negative, and is not below its value in \<open>s0\<close> as long as no
  sale of the instrument is recorded for the date.
\<close>

definition covered :: "db \<Rightarrow> date \<Rightarrow> db \<Rightarrow> bool" where
  "covered s0 dt s \<longleftrightarrow>
     (\<forall>p tk. 0 \<le> get_current_position s0 p tk dt \<longrightarrow>
        0 \<le> get_current_position s p tk dt \<and>
        (\<forall>prid. find_product_id s0 tk = Some prid \<longrightarrow> existing s p prid dt vente = 0 \<longrightarrow>
           get_current_position s0 p tk dt \<le> get_current_position s p tk dt))"

text \<open>
  A choice of the bare row that, from a group ordered by date, takes a row of the
  latest date.
\<close>

definition reads_latest :: "(dp_row list \<Rightarrow> dp_row) \<Rightarrow> bool" where
  "reads_latest pick \<longleftrightarrow>
     (\<forall>G. G \<noteq> [] \<and> sorted (map dp_date G) \<longrightarrow>
        pick G \<in> set G \<and> (\<forall>r \<in> set G. dp_date r \<le> dp_date (pick G)))"

section \<open>Example data\<close>

text \<open>
  Three \<^verbatim>\<open>Returns\<close> columns, most recent row first, each starting with the NaN that
  \<^verbatim>\<open>shift(1)\<close> leaves: a falling instrument; a rising one whose 30-row volatility is
  exactly 8 percent; and a rising one whose returns are all equal (closes 1, 2, 4 give
  the log return \<open>ln 2\<close> twice), so that its volatility is 0.
\<close>

definition falling_returns :: "pyfloat list" where
  "falling_returns = [None, Some (- (1/20)), Some (- (3/100))]"

definition calm_returns :: "pyfloat list" where
  "calm_returns = [None, Some (1/60), Some (1/300), Some (1/60), Some (1/300),
                         Some (1/100), Some (1/100), Some (1/100), Some (1/100)]"

definition flat_returns :: "pyfloat list" where
  "flat_returns = [None, Some (1/100), Some (1/100)]"

text \<open>
  A database with two stocks, one purchase of 10 \<^verbatim>\<open>AAA\<close> by portfolio 1 on Monday
  2024-01-01, and three closing prices of \<^verbatim>\<open>AAA\<close>.
\<close>

definition example_db :: db where
  "example_db =
     \<lparr> Products = [\<lparr> prod_id = 1, ticker = ''AAA'', ptype = Stock \<rparr>,
                   \<lparr> prod_id = 2, ticker = ''BBB'', ptype = Stock \<rparr>],
       Deals = [\<lparr> portefeuille_id = 1, produit_id = 1, type_operation = achat, quantite = 10,
                  date = (2024, 1, 1), volatilite_periode = None, rendement_periode = None \<rparr>],
       ReturnsTab = [],
       Market = (\<lambda>t. if t = ''AAA''
                      then Some [\<lparr> pdate = (2024, 1, 1), Close = Some 100, Returns = None \<rparr>,
                                 \<lparr> pdate = (2024, 1, 8), Close = Some 105, Returns = Some (1/20) \<rparr>,
                                 \<lparr> pdate = (2024, 1, 15), Close = Some 120, Returns = Some (1/7) \<rparr>]
                      else None) \<rparr>"

definition example_data :: "(string \<times> df) list" where
  "example_data = [(''AAA'', Some falling_returns), (''BBB'', Some calm_returns)]"

definition example_mondays :: "date list" where
  "example_mondays = [(2024, 1, 1), (2024, 1, 8), (2024, 1, 15)]"

definition example_samples :: "sample list" where
  "example_samples =
     [\<lparr> sdate = (2024, 1, 8), sreturn = 1/20, svalue = 1050 \<rparr>,
      \<lparr> sdate = (2024, 1, 15), sreturn = 1/10, svalue = 1200 \<rparr>]"

text \<open>A ledger in which portfolio 1 buys 10 \<^verbatim>\<open>AAA\<close> and sells them two weeks later.\<close>

definition round_trip_db :: db where
  "round_trip_db =
     \<lparr> Products = [\<lparr> prod_id = 1, ticker = ''AAA'', ptype = Stock \<rparr>],
       Deals = [\<lparr> portefeuille_id = 1, produit_id = 1, type_operation = achat, quantite = 10,
                  date = (2024, 1, 1), volatilite_periode = None, rendement_periode = None \<rparr>,
                \<lparr> portefeuille_id = 1, produit_id = 1, type_operation = vente, quantite = 10,
                  date = (2024, 1, 15), volatilite_periode = None, rendement_periode = None \<rparr>],
       ReturnsTab = [],
       Market = (\<lambda>t. None) \<rparr>"

text \<open>
  A ledger in which portfolio 1 bought 25 \<^verbatim>\<open>AAA\<close> on 2024-01-01 and already has a sale
  of 18 dated 2024-01-22, as the drivers that decide the most recent Monday first leave
  it before they decide for 2024-01-15.
\<close>

definition backdated_db :: db where
  "backdated_db =
     \<lparr> Products = [\<lparr> prod_id = 1, ticker = ''AAA'', ptype = Stock \<rparr>],
       Deals = [\<lparr> portefeuille_id = 1, produit_id = 1, type_operation = achat, quantite = 25,
                  date = (2024, 1, 1), volatilite_periode = None, rendement_periode = None \<rparr>,
                \<lparr> portefeuille_id = 1, produit_id = 1, type_operation = vente, quantite = 18,
                  date = (2024, 1, 22), volatilite_periode = None, rendement_periode = None \<rparr>],
       ReturnsTab = [],
       Market = (\<lambda>t. None) \<rparr>"

text \<open>An empty ledger, and a decision list with a repeated key and an unknown ticker.\<close>

definition empty_ledger :: db where
  "empty_ledger =
     \<lparr> Products = [\<lparr> prod_id = 1, ticker = ''AAA'', ptype = Stock \<rparr>],
       Deals = [],
       ReturnsTab = [\<lparr> product_id = 1, rdate = (2024, 1, 1), rreturn = 1/100, volatilite = None \<rparr>],
       Market = (\<lambda>t. None) \<rparr>"

definition example_decisions :: "decision list" where
  "example_decisions = [(1, ''AAA'', achat, 20), (1, ''AAA'', achat, 15), (1, ''ZZZ'', achat, 20)]"

section \<open>Positions: what the two queries compute\<close>

lemma signed_sum_split:
  "sum_list (map signed_quantity ds) =
     sum_list (map quantite (filter (\<lambda>d. type_operation d = achat) ds)) -
     sum_list (map quantite (filter (\<lambda>d. type_operation d = vente) ds))"
proof (induction ds)
  case Nil
  then show ?case by simp
next
  case (Cons d ds)
  then show ?case
    by (cases "type_operation d") (simp_all add: signed_quantity_def)
qed

text \<open>
  The position that the strategies read is the quantity bought minus the quantity sold
  up to the date.
\<close>

lemma position_is_buys_minus_sells:
  "get_current_position s pid tk asof =
     sum_list (map quantite (filter (\<lambda>d. type_operation d = achat) (position_rows s pid tk asof))) -
     sum_list (map quantite (filter (\<lambda>d. type_operation d = vente) (position_rows s pid tk asof)))"
  unfolding get_current_position_def by (rule signed_sum_split)

lemma sum_list_concat_map:
  "sum_list (map g (concat (map f xs))) = sum_list (map (\<lambda>x. sum_list (map g (f x))) xs)"
  for g :: "'a \<Rightarrow> int"
  by (induction xs) simp_all

lemma position_as_sum_over_deals:
  "get_current_position s pid tk asof =
     sum_list (map (\<lambda>d. sum_list (map signed_quantity
        (concat (map (\<lambda>p. if produit_id d = prod_id p \<and> portefeuille_id d = pid \<and>
                             ticker p = tk \<and> date d \<le> asof then [d] else []) (Products s)))))
       (Deals s))"
  unfolding get_current_position_def position_rows_def by (rule sum_list_concat_map)

text \<open>It depends on the set of events only, not on the order of their insertion.\<close>

lemma position_order_independent:
  assumes "mset (Deals s') = mset (Deals s)" and "Products s' = Products s"
  shows "get_current_position s' pid tk asof = get_current_position s pid tk asof"
proof -
  have "sum_list (map h (Deals s')) = sum_list (map h (Deals s))" for h :: "deal \<Rightarrow> int"
  proof -
    have "sum_list (map h (Deals s')) = sum_mset (image_mset h (mset (Deals s')))"
      by (simp add: sum_mset_sum_list [symmetric])
    also have "\<dots> = sum_mset (image_mset h (mset (Deals s)))"
      by (simp add: assms(1))
    also have "\<dots> = sum_list (map h (Deals s))"
      by (simp add: sum_mset_sum_list [symmetric])
    finally show ?thesis .
  qed
  then show ?thesis
    by (simp only: position_as_sum_over_deals assms(2))
qed

text \<open>
  Claim C1. The position of an instrument is the quantity bought minus the quantity
  sold up to the date, and the positions query should list exactly the instruments
  whose net quantity is positive. On the ledger in which portfolio 1 buys 10 \<^verbatim>\<open>AAA\<close>
  on 2024-01-01 and sells 10 on 2024-01-15, the net quantity at the end of 2024 is 0,
  yet the positions query lists \<^verbatim>\<open>AAA\<close> with 10: it reports the running position of
  the first row of the ticker's group, which is the one of the earliest date.
\<close>

theorem round_trip_positions:
  "get_current_position round_trip_db 1 ''AAA'' (2024, 12, 31) = 0 \<and>
   get_portfolio_positions sqlite_bare_row round_trip_db 1 (2024, 12, 31) = [(''AAA'', Stock, 10)]"
  by (simp add: get_current_position_def position_rows_def signed_quantity_def
      get_portfolio_positions_def DailyPositions_def joined_def running_def
      delta_def round_trip_db_def sqlite_bare_row_def)

text \<open>Had the last row of the group been read, the instrument would not be listed.\<close>

lemma round_trip_positions_last:
  "get_portfolio_positions last round_trip_db 1 (2024, 12, 31) = []"
  by (simp add: get_portfolio_positions_def DailyPositions_def joined_def running_def
      delta_def round_trip_db_def)

section \<open>The positions query when the latest row is read\<close>

text \<open>
  If the bare columns are read from a row of the latest date of each group (as
  \<open>last\<close> does, the groups being ordered by date) and product ids and tickers are
  unique, the positions query lists exactly the instruments whose net quantity is
  positive, each with that quantity. The ledger above shows that reading the first row
  does not.
\<close>

lemma sorted_le_last: "sorted xs \<Longrightarrow> x \<in> set xs \<Longrightarrow> x \<le> last xs" for xs :: "'a::linorder list"
  by (induction xs) auto

lemma last_reads_latest: "reads_latest last"
  unfolding reads_latest_def
proof (intro allI impI conjI ballI)
  fix G :: "dp_row list" and r
  assume G: "G \<noteq> [] \<and> sorted (map dp_date G)"
  then show "last G \<in> set G" by simp
  assume "r \<in> set G"
  then have "dp_date r \<in> set (map dp_date G)" by simp
  with G have "dp_date r \<le> last (map dp_date G)" by (simp add: sorted_le_last del: set_map)
  then show "dp_date r \<le> dp_date (last G)" using G by (simp add: last_map)
qed

lemma delta_signed: "delta d = signed_quantity d"
  by (cases "type_operation d") (simp_all add: delta_def signed_quantity_def)

lemma joined_set:
  "(d, pr) \<in> set (joined s pid asof) \<longleftrightarrow>
     d \<in> set (Deals s) \<and> pr \<in> set (Products s) \<and> produit_id d = prod_id pr \<and>
     portefeuille_id d = pid \<and> date d \<le> asof"
  by (auto simp: joined_def)

lemma position_rows_joined:
  "position_rows s pid t asof =
     map fst (filter (\<lambda>(d, pr). ticker pr = t) (joined s pid asof))"
proof -
  have inner: "concat (map (\<lambda>p. if produit_id d = prod_id p \<and> portefeuille_id d = pid \<and>
                    ticker p = t \<and> date d \<le> asof then [d] else []) ps) =
        map fst (filter (\<lambda>(d, pr). ticker pr = t)
          (concat (map (\<lambda>pr. if produit_id d = prod_id pr \<and> portefeuille_id d = pid \<and>
                    date d \<le> asof then [(d, pr)] else []) ps)))" for d ps
    by (induction ps) auto
  show ?thesis
    unfolding position_rows_def joined_def
    by (simp only: filter_concat map_concat map_map comp_def inner)
qed

lemma running_filter:
  "running j d =
     sum_list (map (\<lambda>(d', pr'). delta d')
       (filter (\<lambda>(d', pr'). produit_id d' = produit_id d \<and> date d' \<le> date d) j))"
proof -
  have "concat (map (\<lambda>(d', pr'). if produit_id d' = produit_id d \<and> date d' \<le> date d
                       then [delta d'] else []) j) =
        map (\<lambda>(d', pr'). delta d')
          (filter (\<lambda>(d', pr'). produit_id d' = produit_id d \<and> date d' \<le> date d) j)"
    by (induction j) (auto split: if_splits)
  then show ?thesis by (simp add: running_def)
qed

lemma position_joined_sum:
  "get_current_position s pid t asof =
     sum_list (map (\<lambda>(d', pr'). delta d')
       (filter (\<lambda>(d, pr). ticker pr = t) (joined s pid asof)))"
proof -
  have "sum_list (map signed_quantity (map fst xs)) = sum_list (map (\<lambda>(d', pr'). delta d') xs)"
    for xs :: "(deal \<times> product) list"
    by (induction xs) (auto simp: delta_signed)
  then show ?thesis
    by (simp only: get_current_position_def position_rows_joined)
qed

lemma distinct_map_eq:
  "distinct (map f xs) \<Longrightarrow> x \<in> set xs \<Longrightarrow> y \<in> set xs \<Longrightarrow> f x = f y \<Longrightarrow> x = y"
  by (meson distinct_map inj_onD)

lemma DailyPositions_rows:
  "r \<in> set (DailyPositions s pid asof) \<longleftrightarrow>
     (\<exists>d pr. (d, pr) \<in> set (joined s pid asof) \<and>
        r = \<lparr> dp_produit_id = produit_id d, dp_ticker = ticker pr, dp_type = ptype pr,
              dp_date = date d, dp_type_operation = type_operation d, dp_quantite = quantite d,
              running_position = running (joined s pid asof) d \<rparr>)"
  by (auto simp: DailyPositions_def Let_def)

lemma DailyPositions_sorted: "sorted (map dp_date (DailyPositions s pid asof))"
  by (simp add: DailyPositions_def Let_def sorted_sort_key)

lemma DailyPositions_dates: "r \<in> set (DailyPositions s pid asof) \<Longrightarrow> dp_date r \<le> asof"
  by (auto simp: DailyPositions_rows joined_set)

lemma latest_row_of_group:
  assumes ids: "distinct (map prod_id (Products s))"
    and tickers: "distinct (map ticker (Products s))"
    and pk: "reads_latest pick"
    and G: "G = filter (\<lambda>r. dp_ticker r = t) (DailyPositions s pid asof)" "G \<noteq> []"
  shows "\<exists>pr \<in> set (Products s). ticker pr = t \<and> dp_ticker (pick G) = t \<and>
           dp_type (pick G) = ptype pr \<and>
           running_position (pick G) = get_current_position s pid t asof"
proof -
  let ?j = "joined s pid asof"
  have "sorted (map dp_date G)"
    unfolding G(1) by (rule sorted_filter) (rule DailyPositions_sorted)
  with pk G(2) have mem: "pick G \<in> set G" and top: "\<forall>r \<in> set G. dp_date r \<le> dp_date (pick G)"
    by (auto simp: reads_latest_def)
  from mem have gt: "dp_ticker (pick G) = t" and "pick G \<in> set (DailyPositions s pid asof)"
    by (simp_all add: G(1))
  then obtain d pr where j: "(d, pr) \<in> set ?j" and
    g: "pick G = \<lparr> dp_produit_id = produit_id d, dp_ticker = ticker pr, dp_type = ptype pr,
              dp_date = date d, dp_type_operation = type_operation d, dp_quantite = quantite d,
              running_position = running ?j d \<rparr>"
    by (auto simp: DailyPositions_rows)
  from j have pr: "pr \<in> set (Products s)" "produit_id d = prod_id pr" by (simp_all add: joined_set)
  from g gt have tk: "ticker pr = t" by simp
  have same: "(produit_id d' = produit_id d \<and> date d' \<le> date d) \<longleftrightarrow> ticker pr' = t"
    if "(d', pr') \<in> set ?j" for d' pr'
  proof
    assume a: "produit_id d' = produit_id d \<and> date d' \<le> date d"
    from that have pr': "pr' \<in> set (Products s)" "produit_id d' = prod_id pr'"
      by (simp_all add: joined_set)
    with a pr have "prod_id pr' = prod_id pr" by simp
    with ids pr' pr have "pr' = pr" by (meson distinct_map_eq)
    with tk show "ticker pr' = t" by simp
  next
    assume a: "ticker pr' = t"
    from that have pr': "pr' \<in> set (Products s)" "produit_id d' = prod_id pr'"
      by (simp_all add: joined_set)
    from a tk have "ticker pr' = ticker pr" by simp
    with tickers pr' pr have eq: "pr' = pr" by (meson distinct_map_eq)
    let ?r = "\<lparr> dp_produit_id = produit_id d', dp_ticker = ticker pr', dp_type = ptype pr',
              dp_date = date d', dp_type_operation = type_operation d', dp_quantite = quantite d',
              running_position = running ?j d' \<rparr>"
    have "?r \<in> set (DailyPositions s pid asof)"
      using that by (auto simp: DailyPositions_rows)
    then have "?r \<in> set G" using a by (simp add: G(1))
    with top have "dp_date ?r \<le> dp_date (pick G)" by blast
    then have "date d' \<le> date d" by (simp add: g)
    with eq pr' pr show "produit_id d' = produit_id d \<and> date d' \<le> date d" by simp
  qed
  have "filter (\<lambda>(d', pr'). produit_id d' = produit_id d \<and> date d' \<le> date d) ?j =
        filter (\<lambda>(d', pr'). ticker pr' = t) ?j"
  proof (rule filter_cong)
    fix x assume m: "x \<in> set ?j"
    obtain a b where x: "x = (a, b)" by (cases x)
    from m x same [of a b]
    show "(case x of (d', pr') \<Rightarrow> produit_id d' = produit_id d \<and> date d' \<le> date d) =
               (case x of (d', pr') \<Rightarrow> ticker pr' = t)"
      by simp
  qed simp
  then have "running ?j d = get_current_position s pid t asof"
    by (simp add: running_filter position_joined_sum)
  with g pr(1) tk show ?thesis by auto
qed

lemma no_rows_no_position:
  assumes "filter (\<lambda>r. dp_ticker r = t) (DailyPositions s pid asof) = []"
  shows "get_current_position s pid t asof = 0"
proof -
  have "filter (\<lambda>(d, pr). ticker pr = t) (joined s pid asof) = []"
  proof (rule ccontr)
    assume "filter (\<lambda>(d, pr). ticker pr = t) (joined s pid asof) \<noteq> []"
    then obtain d pr where j: "(d, pr) \<in> set (joined s pid asof)" and "ticker pr = t"
      by (auto simp: filter_empty_conv)
    let ?r = "\<lparr> dp_produit_id = produit_id d, dp_ticker = ticker pr, dp_type = ptype pr,
              dp_date = date d, dp_type_operation = type_operation d, dp_quantite = quantite d,
              running_position = running (joined s pid asof) d \<rparr>"
    have "?r \<in> set (DailyPositions s pid asof)" using j by (auto simp: DailyPositions_rows)
    with assms \<open>ticker pr = t\<close> show False by (auto simp: filter_empty_conv)
  qed
  then show ?thesis by (simp add: position_joined_sum)
qed

lemma positions_set:
  "x \<in> set (get_portfolio_positions pick s pid asof) \<longleftrightarrow>
     (\<exists>t. filter (\<lambda>r. dp_ticker r = t) (DailyPositions s pid asof) \<noteq> [] \<and>
        (let g = pick (filter (\<lambda>r. dp_ticker r = t) (DailyPositions s pid asof)) in
         x = (dp_ticker g, dp_type g, running_position g) \<and> 0 < running_position g))"
proof -
  have all: "filter (\<lambda>r. dp_date r \<le> asof) (DailyPositions s pid asof) = DailyPositions s pid asof"
    by (simp add: DailyPositions_dates)
  have ne: "filter (\<lambda>r. dp_ticker r = t) rows \<noteq> [] \<longleftrightarrow> t \<in> dp_ticker ` set rows"
    for t and rows :: "dp_row list"
    by (auto simp: filter_empty_conv)
  show ?thesis
    by (auto simp: get_portfolio_positions_def all Let_def ne)
qed

lemma positions_with_latest_row:
  assumes ids: "distinct (map prod_id (Products s))"
    and tickers: "distinct (map ticker (Products s))"
    and pk: "reads_latest pick"
  shows "set (get_portfolio_positions pick s pid asof) =
           {(ticker p, ptype p, get_current_position s pid (ticker p) asof) | p.
              p \<in> set (Products s) \<and> 0 < get_current_position s pid (ticker p) asof}"
proof (intro set_eqI iffI)
  fix x
  assume "x \<in> set (get_portfolio_positions pick s pid asof)"
  then obtain t where ne: "filter (\<lambda>r. dp_ticker r = t) (DailyPositions s pid asof) \<noteq> []"
    and x: "x = (dp_ticker (pick (filter (\<lambda>r. dp_ticker r = t) (DailyPositions s pid asof))),
                 dp_type (pick (filter (\<lambda>r. dp_ticker r = t) (DailyPositions s pid asof))),
                 running_position (pick (filter (\<lambda>r. dp_ticker r = t) (DailyPositions s pid asof))))"
    and pos: "0 < running_position (pick (filter (\<lambda>r. dp_ticker r = t) (DailyPositions s pid asof)))"
    by (auto simp: positions_set Let_def)
  from latest_row_of_group [OF ids tickers pk refl ne] x pos
  show "x \<in> {(ticker p, ptype p, get_current_position s pid (ticker p) asof) | p.
              p \<in> set (Products s) \<and> 0 < get_current_position s pid (ticker p) asof}"
    by auto
next
  fix x
  assume "x \<in> {(ticker p, ptype p, get_current_position s pid (ticker p) asof) | p.
              p \<in> set (Products s) \<and> 0 < get_current_position s pid (ticker p) asof}"
  then obtain p where p: "p \<in> set (Products s)"
    and x: "x = (ticker p, ptype p, get_current_position s pid (ticker p) asof)"
    and pos: "0 < get_current_position s pid (ticker p) asof" by auto
  let ?G = "filter (\<lambda>r. dp_ticker r = ticker p) (DailyPositions s pid asof)"
  have ne: "?G \<noteq> []" using no_rows_no_position [of "ticker p" s pid asof] pos by auto
  from latest_row_of_group [OF ids tickers pk refl ne] obtain pr where
    pr: "pr \<in> set (Products s)" "ticker pr = ticker p" and
    g: "dp_ticker (pick ?G) = ticker p" "dp_type (pick ?G) = ptype pr"
       "running_position (pick ?G) = get_current_position s pid (ticker p) asof"
    by auto
  from tickers pr p have "pr = p" by (meson distinct_map_eq)
  with g x pos ne show "x \<in> set (get_portfolio_positions pick s pid asof)"
    by (auto simp: positions_set Let_def)
qed

lemma positions_with_last_row:
  assumes "distinct (map prod_id (Products s))" and "distinct (map ticker (Products s))"
  shows "set (get_portfolio_positions last s pid asof) =
           {(ticker p, ptype p, get_current_position s pid (ticker p) asof) | p.
              p \<in> set (Products s) \<and> 0 < get_current_position s pid (ticker p) asof}"
  using assms last_reads_latest by (rule positions_with_latest_row)

section \<open>Statistics of the example columns\<close>

lemma falling_stats:
  "mean (take 5 falling_returns) = Some (- (1/25))"
  "mean (take 10 falling_returns) = Some (- (1/25))"
  "mean (take 20 falling_returns) = Some (- (1/25))"
  "mean (take 30 falling_returns) = Some (- (1/25))"
  by (simp_all add: falling_returns_def mean_def valid_def)

lemma calm_means:
  "mean (take 5 calm_returns) = Some (1/100)"
  "mean (take 10 calm_returns) = Some (1/100)"
  "mean (take 20 calm_returns) = Some (1/100)"
  "mean (take 30 calm_returns) = Some (1/100)"
  by (simp_all add: calm_returns_def mean_def valid_def)

lemma calm_volatility: "fmul (std (take 30 calm_returns)) (sqrt 252) = Some (2/25)"
proof -
  have "std (take 30 calm_returns) = Some (sqrt (4 / 157500))"
    by (simp add: calm_returns_def std_def valid_def power2_eq_square)
  moreover have "sqrt (4 / 157500) * sqrt 252 = (2/25::real)"
  proof -
    have "sqrt (4 / 157500) * sqrt 252 = sqrt (4 / 157500 * 252)"
      by (simp only: real_sqrt_mult)
    also have "\<dots> = sqrt ((2/25::real)\<^sup>2)"
      by (simp add: power2_eq_square)
    also have "\<dots> = 2/25" by simp
    finally show ?thesis .
  qed
  ultimately show ?thesis by (simp add: fmul_def)
qed

lemma flat_means:
  "mean (take 5 flat_returns) = Some (1/100)"
  "mean (take 10 flat_returns) = Some (1/100)"
  "mean (take 30 flat_returns) = Some (1/100)"
  by (simp_all add: flat_returns_def mean_def valid_def)

lemma flat_volatility: "fmul (std (take 30 flat_returns)) (sqrt 252) = Some 0"
  by (simp add: flat_returns_def std_def valid_def fmul_def)

lemma columns_not_empty: "falling_returns \<noteq> []" "calm_returns \<noteq> []" "flat_returns \<noteq> []"
  by (simp_all add: falling_returns_def calm_returns_def flat_returns_def)

lemma example_position_AAA: "get_current_position example_db 1 ''AAA'' (2024, 1, 15) = 10"
  by (simp add: get_current_position_def position_rows_def example_db_def signed_quantity_def)

lemma example_position_BBB: "get_current_position example_db 1 ''BBB'' (2024, 1, 15) = 0"
  by (simp add: get_current_position_def position_rows_def example_db_def signed_quantity_def)

lemma example_types:
  "product_type example_db ''AAA'' = Some Stock"
  "product_type example_db ''BBB'' = Some Stock"
  by (simp_all add: product_type_def example_db_def)

lemma example_low_risk:
  "apply_low_risk_strategy example_db example_data 1 (2024, 1, 15) =
     Inr [(1, ''AAA'', vente, 5), (1, ''BBB'', achat, 20)]"
proof -
  have a: "low_risk_decision 1 ''AAA'' Stock 10 (Some (- (1/25))) (Some (- (1/25))) v =
             Inr [(1, ''AAA'', vente, 5)]" for v
    by (simp add: low_risk_decision_def flt_def py_int_def)
  have b: "low_risk_decision 1 ''BBB'' Stock 0 (Some (1/100)) (Some (1/100)) (Some (2/25)) =
             Inr [(1, ''BBB'', achat, 20)]"
    by (simp add: low_risk_decision_def flt_def fgt_def py_int_def target_volatility_def)
  show ?thesis
    by (simp add: apply_low_risk_strategy_def example_data_def columns_not_empty falling_stats
        calm_means calm_volatility example_position_AAA example_position_BBB example_types a b)
qed

lemma example_high_yield:
  "apply_high_yield_strategy example_db example_data 1 (2024, 1, 15) =
     Inr [(1, ''AAA'', vente, 7), (1, ''BBB'', achat, 25)]"
proof -
  have a: "high_yield_decision 1 ''AAA'' 10 (Some (- (1/25))) (Some (- (1/25))) (Some (- (1/25))) v =
             Inr [(1, ''AAA'', vente, 7)]" for v
    by (simp add: high_yield_decision_def flt_def py_int_def)
  have b: "high_yield_decision 1 ''BBB'' 0 (Some (1/100)) (Some (1/100)) (Some (1/100)) (Some (2/25)) =
             Inr [(1, ''BBB'', achat, 25)]"
    by (simp add: high_yield_decision_def flt_def fgt_def py_int_def max_position_size_def)
  show ?thesis
    by (simp add: apply_high_yield_strategy_def example_data_def columns_not_empty falling_stats
        calm_means calm_volatility example_position_AAA example_position_BBB a b)
qed

lemma example_low_turnover:
  "apply_low_turnover_strategy 20 example_db example_data 1 (2024, 1, 15) =
     [(1, ''AAA'', vente, 10)]"
  by (simp add: apply_low_turnover_strategy_def week_number_def day_def trades_this_week_def
      example_data_def columns_not_empty falling_stats example_position_AAA flt_def fmul_def)
     (simp add: example_db_def)

section \<open>Strategy decisions\<close>

lemma low_risk_decision_safe:
  "low_risk_decision pid tk ty (get_current_position s pid tk dt) r10 r30 v = Inr new \<Longrightarrow>
   \<forall>x \<in> set new. safe_decision s dt x"
  by (auto simp: low_risk_decision_def safe_decision_def Let_def split: if_splits sum.splits)

lemma high_yield_decision_safe:
  "high_yield_decision pid tk (get_current_position s pid tk dt) r5 r10 r30 v = Inr new \<Longrightarrow>
   \<forall>x \<in> set new. safe_decision s dt x"
  by (auto simp: high_yield_decision_def safe_decision_def Let_def max_position_size_def
      split: if_splits sum.splits)

text \<open>Every decision of a loop's result was there before or comes from one instrument's branch.\<close>

lemma low_risk_loop_origin:
  "low_risk_loop s pid dt data acc = Inr ds \<Longrightarrow> x \<in> set ds \<Longrightarrow>
   x \<in> set acc \<or>
   (\<exists>tk rs ty new. (tk, Some rs) \<in> set data \<and> rs \<noteq> [] \<and> product_type s tk = Some ty \<and>
      low_risk_decision pid tk ty (get_current_position s pid tk dt) (mean (take 10 rs))
        (mean (take 30 rs)) (fmul (std (take 30 rs)) (sqrt 252)) = Inr new \<and> x \<in> set new)"
proof (induction s pid dt data acc rule: low_risk_loop.induct)
  case (1 s pid dt decisions)
  then show ?case by simp
next
  case (2 s pid dt tk rest decisions)
  then show ?case by auto
next
  case (3 s pid dt tk rs rest decisions)
  show ?case
  proof (cases "rs = []")
    case True
    with 3 show ?thesis by auto
  next
    case False
    from "3.prems"(1) False obtain ty new where
      ty: "product_type s tk = Some ty" and
      new: "low_risk_decision pid tk ty (get_current_position s pid tk dt)
              (mean (take 10 rs)) (mean (take 30 rs)) (fmul (std (take 30 rs)) (sqrt 252)) = Inr new" and
      run: "low_risk_loop s pid dt rest (decisions @ new) = Inr ds"
      by (auto simp: Let_def split: option.splits sum.splits)
    from "3.IH"(2) [OF False refl refl refl refl ty new run "3.prems"(2)]
    show ?thesis using False ty new by auto
  qed
qed

lemma high_yield_loop_origin:
  "high_yield_loop s pid dt data acc = Inr ds \<Longrightarrow> x \<in> set ds \<Longrightarrow>
   x \<in> set acc \<or>
   (\<exists>tk rs new. (tk, Some rs) \<in> set data \<and> rs \<noteq> [] \<and>
      high_yield_decision pid tk (get_current_position s pid tk dt) (mean (take 5 rs))
        (mean (take 10 rs)) (mean (take 30 rs)) (fmul (std (take 30 rs)) (sqrt 252)) = Inr new \<and>
      x \<in> set new)"
proof (induction s pid dt data acc rule: high_yield_loop.induct)
  case (1 s pid dt decisions)
  then show ?case by simp
next
  case (2 s pid dt tk rest decisions)
  then show ?case by auto
next
  case (3 s pid dt tk rs rest decisions)
  show ?case
  proof (cases "rs = []")
    case True
    with 3 show ?thesis by auto
  next
    case False
    from "3.prems"(1) False obtain new where
      new: "high_yield_decision pid tk (get_current_position s pid tk dt) (mean (take 5 rs))
              (mean (take 10 rs)) (mean (take 30 rs)) (fmul (std (take 30 rs)) (sqrt 252)) = Inr new" and
      run: "high_yield_loop s pid dt rest (decisions @ new) = Inr ds"
      by (auto simp: Let_def split: sum.splits)
    from "3.IH"(2) [OF False refl refl refl refl refl new run "3.prems"(2)]
    show ?thesis using False new by auto
  qed
qed

lemma low_turnover_scan_safe:
  "15 \<le> r \<Longrightarrow> \<forall>x \<in> set (low_turnover_scan r s pid dt data). safe_decision s dt x"
  by (induction r s pid dt data rule: low_turnover_scan.induct)
     (auto simp: Let_def safe_decision_def)

section \<open>Position sizing\<close>

lemma position_size_low_risk:
  assumes "0 < v" and "v < 0.12"
  shows "\<exists>n. position_size_of 10000 (Some v) = Inr n \<and> 20 < n"
proof -
  have "21 * (v * 100) < 10000" using assms by simp
  then have "21 < 10000 / (v * 100)" using assms by (simp add: pos_less_divide_eq)
  then have "21 \<le> \<lfloor>10000 / (v * 100)\<rfloor>" by linarith
  then show ?thesis using assms by (simp add: py_int_def)
qed

lemma position_size_high_yield:
  assumes "0 < v" and "v < 0.40"
  shows "\<exists>n. position_size_of 15000 (Some v) = Inr n \<and> 375 \<le> n"
proof -
  have "375 * (v * 100) < 15000" using assms by simp
  then have "375 < 15000 / (v * 100)" using assms by (simp add: pos_less_divide_eq)
  then have "375 \<le> \<lfloor>15000 / (v * 100)\<rfloor>" by linarith
  then show ?thesis using assms by (simp add: py_int_def)
qed

lemma sum_squares_nonneg: "0 \<le> (\<Sum>v\<leftarrow>vs. (v - m)\<^sup>2)" for m :: real
  by (rule sum_list_nonneg) auto

lemma volatility_nonneg: "fmul (std xs) (sqrt 252) = Some v \<Longrightarrow> 0 \<le> v"
  by (auto simp: fmul_def std_def Let_def sum_squares_nonneg split: if_splits)

lemma low_risk_decision_buys_20:
  assumes "fmul (std xs) (sqrt 252) = vol"
    and "low_risk_decision pid tk ty cp r10 r30 vol = Inr new"
    and "(p, t, achat, q) \<in> set new"
  shows "q = 20"
proof (cases vol)
  case None
  with assms(2,3) show ?thesis
    by (auto simp: low_risk_decision_def flt_def Let_def split: if_splits)
next
  case (Some v)
  then have nn: "0 \<le> v" using assms(1) volatility_nonneg by simp
  show ?thesis
  proof (cases "cp > 0")
    case True
    with assms(2,3) show ?thesis
      by (auto simp: low_risk_decision_def Let_def split: if_splits)
  next
    case False
    with assms(2,3) Some have gate: "v < 0.12" and "position_size_of 10000 (Some v) \<noteq> Inl OverflowError"
      by (auto simp: low_risk_decision_def flt_def target_volatility_def split: if_splits sum.splits)
    then have "0 < v" using nn by (cases "v = 0") auto
    from position_size_low_risk [OF this gate] obtain n where
      "position_size_of 10000 (Some v) = Inr n" "20 < n" by auto
    with assms(2,3) Some False show ?thesis
      by (auto simp: low_risk_decision_def split: if_splits)
  qed
qed

lemma high_yield_decision_buys_25:
  assumes "fmul (std xs) (sqrt 252) = vol"
    and "high_yield_decision pid tk cp r5 r10 r30 vol = Inr new"
    and "(p, t, achat, q) \<in> set new"
  shows "q = 25"
proof (cases vol)
  case None
  with assms(2,3) show ?thesis
    by (auto simp: high_yield_decision_def flt_def Let_def split: if_splits)
next
  case (Some v)
  then have nn: "0 \<le> v" using assms(1) volatility_nonneg by simp
  show ?thesis
  proof (cases "cp > 0")
    case True
    with assms(2,3) show ?thesis
      by (auto simp: high_yield_decision_def Let_def split: if_splits)
  next
    case False
    with assms(2,3) Some have gate: "v < 0.40" and "position_size_of 15000 (Some v) \<noteq> Inl OverflowError"
      by (auto simp: high_yield_decision_def flt_def split: if_splits sum.splits)
    then have "0 < v" using nn by (cases "v = 0") auto
    from position_size_high_yield [OF this gate] obtain n where
      "position_size_of 15000 (Some v) = Inr n" "375 \<le> n" by auto
    with assms(2,3) Some False show ?thesis
      by (auto simp: high_yield_decision_def max_position_size_def split: if_splits)
  qed
qed

lemma low_risk_buys_20:
  assumes "apply_low_risk_strategy s data pid dt = Inr ds" and "(p, t, achat, q) \<in> set ds"
  shows "q = 20"
  using low_risk_loop_origin [of s pid dt data "[]" ds "(p, t, achat, q)"] assms
  by (auto simp: apply_low_risk_strategy_def dest: low_risk_decision_buys_20 [OF refl])

lemma high_yield_buys_25:
  assumes "apply_high_yield_strategy s data pid dt = Inr ds" and "(p, t, achat, q) \<in> set ds"
  shows "q = 25"
  using high_yield_loop_origin [of s pid dt data "[]" ds "(p, t, achat, q)"] assms
  by (auto simp: apply_high_yield_strategy_def dest: high_yield_decision_buys_25 [OF refl])

text \<open>
  Claim C10. Whenever a buy branch is taken the sizing formula is at its upper clamp.
  For a volatility \<open>v\<close> with \<open>0 < v < 0.12\<close>, \<^verbatim>\<open>int(10000 / (v * 100))\<close> is above 20 and
  the conservative policy, for an instrument that is not held and has positive 10- and
  30-row mean returns, buys exactly 20. For \<open>0 < w < 0.40\<close>, \<^verbatim>\<open>int(15000 / (w * 100))\<close>
  is at least 375 and the high-yield policy buys exactly 25. So every purchase that the
  conservative policy decides is of 20 and every purchase of the high-yield policy is
  of 25, whatever the volatility.
\<close>

theorem buy_size_saturates:
  "(0 < v \<and> v < 0.12 \<longrightarrow>
      (\<exists>n. position_size_of 10000 (Some v) = Inr n \<and> 20 < n) \<and>
      (cp \<le> 0 \<and> fgt r10 (Some 0) \<and> fgt r30 (Some 0) \<longrightarrow>
         low_risk_decision pid tk ty cp r10 r30 (Some v) = Inr [(pid, tk, achat, 20)])) \<and>
   (0 < w \<and> w < 0.40 \<longrightarrow>
      (\<exists>n. position_size_of 15000 (Some w) = Inr n \<and> 375 \<le> n) \<and>
      (cp' \<le> 0 \<and> fgt q5 (Some 0) \<and> fgt q10 (Some 0) \<and> fgt q30 (Some 0) \<longrightarrow>
         high_yield_decision pid tk cp' q5 q10 q30 (Some w) = Inr [(pid, tk, achat, 25)])) \<and>
   (apply_low_risk_strategy s data pid dt = Inr ds \<longrightarrow>
      (\<forall>(p, t, opn, q) \<in> set ds. opn = achat \<longrightarrow> q = 20)) \<and>
   (apply_high_yield_strategy s data pid dt = Inr ds' \<longrightarrow>
      (\<forall>(p, t, opn, q) \<in> set ds'. opn = achat \<longrightarrow> q = 25))"
proof (intro conjI impI)
  assume v: "0 < v \<and> v < 0.12"
  then show "\<exists>n. position_size_of 10000 (Some v) = Inr n \<and> 20 < n"
    using position_size_low_risk by simp
  assume "cp \<le> 0 \<and> fgt r10 (Some 0) \<and> fgt r30 (Some 0)"
  with v position_size_low_risk [of v]
  show "low_risk_decision pid tk ty cp r10 r30 (Some v) = Inr [(pid, tk, achat, 20)]"
    by (auto simp: low_risk_decision_def target_volatility_def flt_def)
next
  assume w: "0 < w \<and> w < 0.40"
  then show "\<exists>n. position_size_of 15000 (Some w) = Inr n \<and> 375 \<le> n"
    using position_size_high_yield by simp
  assume "cp' \<le> 0 \<and> fgt q5 (Some 0) \<and> fgt q10 (Some 0) \<and> fgt q30 (Some 0)"
  with w position_size_high_yield [of w]
  show "high_yield_decision pid tk cp' q5 q10 q30 (Some w) = Inr [(pid, tk, achat, 25)]"
    by (auto simp: high_yield_decision_def max_position_size_def flt_def)
next
  assume "apply_low_risk_strategy s data pid dt = Inr ds"
  then show "\<forall>(p, t, opn, q) \<in> set ds. opn = achat \<longrightarrow> q = 20"
    using low_risk_buys_20 by blast
next
  assume "apply_high_yield_strategy s data pid dt = Inr ds'"
  then show "\<forall>(p, t, opn, q) \<in> set ds'. opn = achat \<longrightarrow> q = 25"
    using high_yield_buys_25 by blast
qed

text \<open>
  The theorem at volatilities of 8 and 30 percent, an unheld instrument and mean
  returns of 1 percent, and at the example's runs of the two policies.
\<close>

theorem buy_size_saturates_witness:
  "(0::real) < 2/25 \<and> (2/25::real) < 0.12 \<and>
   (\<exists>n. position_size_of 10000 (Some (2/25)) = Inr n \<and> 20 < n) \<and>
   (0::int) \<le> 0 \<and> fgt (Some (1/100)) (Some 0) \<and>
   low_risk_decision 1 ''BBB'' Stock 0 (Some (1/100)) (Some (1/100)) (Some (2/25)) =
     Inr [(1, ''BBB'', achat, 20)] \<and>
   (0::real) < 3/10 \<and> (3/10::real) < 0.40 \<and>
   (\<exists>n. position_size_of 15000 (Some (3/10)) = Inr n \<and> 375 \<le> n) \<and>
   high_yield_decision 1 ''BBB'' 0 (Some (1/100)) (Some (1/100)) (Some (1/100)) (Some (3/10)) =
     Inr [(1, ''BBB'', achat, 25)] \<and>
   apply_low_risk_strategy example_db example_data 1 (2024, 1, 15) =
     Inr [(1, ''AAA'', vente, 5), (1, ''BBB'', achat, 20)] \<and>
   apply_high_yield_strategy example_db example_data 1 (2024, 1, 15) =
     Inr [(1, ''AAA'', vente, 7), (1, ''BBB'', achat, 25)]"
proof -
  have g: "fgt (Some (1/100)) (Some 0)" by (simp add: fgt_def flt_def)
  from buy_size_saturates [of "2/25" 0 "Some (1/100)" "Some (1/100)" 1 "''BBB''" Stock "3/10" 0
      "Some (1/100)" "Some (1/100)" "Some (1/100)" example_db example_data "(2024, 1, 15)"
      "[(1, ''AAA'', vente, 5), (1, ''BBB'', achat, 20)]"
      "[(1, ''AAA'', vente, 7), (1, ''BBB'', achat, 25)]"] g
    example_low_risk example_high_yield
  show ?thesis by simp
qed

text \<open>
  Claim C4. In the specification's scenario (an unheld instrument, positive 10- and
  30-row mean returns, a 30-row annualised volatility of 8 percent, the target of 10
  percent) the conservative policy should buy \<open>clamp(10000 / (8 * 100), 5, 20) = 12\<close>.
  The column \<open>calm_returns\<close> is such an instrument, and the policy buys 20: it divides
  by the volatility as a fraction times 100, that is by 8, and 1250 is clamped to 20.
\<close>

theorem conservative_buy_scenario:
  "get_current_position example_db 1 ''BBB'' (2024, 1, 15) = 0 \<and>
   mean (take 10 calm_returns) = Some (1/100) \<and>
   mean (take 30 calm_returns) = Some (1/100) \<and>
   fmul (std (take 30 calm_returns)) (sqrt 252) = Some (8/100) \<and>
   target_volatility = 10/100 \<and>
   position_size_of 10000 (Some (8/100)) = Inr 1250 \<and>
   apply_low_risk_strategy example_db [(''BBB'', Some calm_returns)] 1 (2024, 1, 15) =
     Inr [(1, ''BBB'', achat, 20)]"
proof -
  have b: "low_risk_decision 1 ''BBB'' Stock 0 (Some (1/100)) (Some (1/100)) (Some (2/25)) =
             Inr [(1, ''BBB'', achat, 20)]"
    by (simp add: low_risk_decision_def flt_def fgt_def py_int_def target_volatility_def)
  have run: "apply_low_risk_strategy example_db [(''BBB'', Some calm_returns)] 1 (2024, 1, 15) =
     Inr [(1, ''BBB'', achat, 20)]"
    by (simp add: apply_low_risk_strategy_def columns_not_empty calm_means calm_volatility
        example_position_BBB example_types b)
  show ?thesis
    using run by (simp add: example_position_BBB calm_means calm_volatility
        target_volatility_def py_int_def)
qed

text \<open>
  Claim C5. A zero or undefined volatility should never reach the division of the
  sizing formula. An undefined one does not (\<open>nan_volatility_skips_buy\<close> below), but a
  volatility of zero passes the buy gate of both policies: on a rising instrument whose
  returns are all equal, \<^verbatim>\<open>10000 / (volatility * 100)\<close> and
  \<^verbatim>\<open>15000 / (volatility * 100)\<close> are evaluated with \<open>volatility = 0\<close> and the call raises.
\<close>

theorem zero_volatility_raises:
  "mean (take 10 flat_returns) = Some (1/100) \<and>
   fmul (std (take 30 flat_returns)) (sqrt 252) = Some 0 \<and>
   position_size_of 10000 (Some 0) = Inl OverflowError \<and>
   position_size_of 15000 (Some 0) = Inl OverflowError \<and>
   apply_low_risk_strategy example_db [(''BBB'', Some flat_returns)] 1 (2024, 1, 15) =
     Inl OverflowError \<and>
   apply_high_yield_strategy example_db [(''BBB'', Some flat_returns)] 1 (2024, 1, 15) =
     Inl OverflowError"
proof -
  have a: "apply_low_risk_strategy example_db [(''BBB'', Some flat_returns)] 1 (2024, 1, 15) =
     Inl OverflowError"
    by (simp add: apply_low_risk_strategy_def columns_not_empty flat_means flat_volatility
        example_position_BBB example_types low_risk_decision_def fgt_def flt_def
        target_volatility_def)
  have b: "apply_high_yield_strategy example_db [(''BBB'', Some flat_returns)] 1 (2024, 1, 15) =
     Inl OverflowError"
    by (simp add: apply_high_yield_strategy_def columns_not_empty flat_means flat_volatility
        example_position_BBB high_yield_decision_def fgt_def flt_def)
  show ?thesis
    using a b by (simp add: flat_means flat_volatility)
qed

text \<open>
  With an undefined volatility neither policy reaches the sizing formula: no purchase
  is decided and nothing is raised.
\<close>

lemma nan_volatility_skips_buy:
  "cp \<le> 0 \<Longrightarrow> low_risk_decision pid tk ty cp r10 r30 None = Inr []"
  "cp \<le> 0 \<Longrightarrow> high_yield_decision pid tk cp r5 r10 r30 None = Inr []"
  by (simp_all add: low_risk_decision_def high_yield_decision_def flt_def)

lemma single_observation_volatility: "fmul (std [None, Some x]) (sqrt 252) = None"
  by (simp add: std_def valid_def fmul_def)

section \<open>Low-turnover gates\<close>

lemma week_number_ceiling: "week_number dt = \<lceil>real_of_int (day dt) / 7\<rceil>"
proof -
  have "\<lceil>real_of_int (day dt) / 7\<rceil> = - ((- day dt) div 7)"
    using ceiling_divide_eq_div [of "day dt" 7, where ?'a = real] by simp
  also have "\<dots> = (day dt - 1) div 7 + 1" by presburger
  finally show ?thesis by (simp add: week_number_def)
qed

lemma low_turnover_scan_length: "length (low_turnover_scan r s pid dt data) \<le> 1"
  by (induction r s pid dt data rule: low_turnover_scan.induct) (simp_all add: Let_def)

lemma trades_this_week_pos:
  "(0 < trades_this_week s pid dt) = (\<exists>d \<in> set (Deals s). portefeuille_id d = pid \<and> date d = dt)"
  by (auto simp: trades_this_week_def filter_empty_conv)

text \<open>
  Claim C6. On a date whose week of the month, the ceiling of day over 7, is neither 1
  nor 3, and on a date on which the portfolio already has a trade, the low-turnover
  policy returns no decision whatever the market data are; and it never returns more
  than one decision.
\<close>

theorem low_turnover_gates:
  "(\<lceil>real_of_int (day dt) / 7\<rceil> \<notin> {1, 3} \<longrightarrow> apply_low_turnover_strategy r s data pid dt = []) \<and>
   ((\<exists>d \<in> set (Deals s). portefeuille_id d = pid \<and> date d = dt) \<longrightarrow>
      apply_low_turnover_strategy r s data pid dt = []) \<and>
   length (apply_low_turnover_strategy r s data pid dt) \<le> 1"
  using low_turnover_scan_length [of r s pid dt data] trades_this_week_pos [of s pid dt]
  by (simp add: apply_low_turnover_strategy_def week_number_ceiling [symmetric])

text \<open>
  The theorem on the second Monday of January 2024 and on the first one, on which
  portfolio 1 has a trade; on the third Monday the same data give a sale.
\<close>

theorem low_turnover_gates_witness:
  "\<lceil>real_of_int (day (2024, 1, 8)) / 7\<rceil> \<notin> {1, 3} \<and>
   apply_low_turnover_strategy 20 example_db example_data 1 (2024, 1, 8) = [] \<and>
   (\<exists>d \<in> set (Deals example_db). portefeuille_id d = 1 \<and> date d = (2024, 1, 1)) \<and>
   apply_low_turnover_strategy 20 example_db example_data 1 (2024, 1, 1) = [] \<and>
   apply_low_turnover_strategy 20 example_db example_data 1 (2024, 1, 15) = [(1, ''AAA'', vente, 10)]"
proof -
  have w: "\<lceil>real_of_int (day (2024, 1, 8)) / 7\<rceil> \<notin> {1, 3}"
    by (simp add: day_def)
  have t: "\<exists>d \<in> set (Deals example_db). portefeuille_id d = 1 \<and> date d = (2024, 1, 1)"
    by (simp add: example_db_def)
  from low_turnover_gates [of "(2024, 1, 8)" 20 example_db example_data 1]
    low_turnover_gates [of "(2024, 1, 1)" 20 example_db example_data 1]
    w t example_low_turnover
  show ?thesis by simp
qed

section \<open>Deal recorder\<close>

lemma new_deal_key: "same_key pid prid dt opn (new_deal s pid prid opn q dt)"
  by (simp add: same_key_def new_deal_def Let_def)

lemma new_deal_other_key:
  "same_key pid' prid' dt' opn' (new_deal s pid prid opn q dt) \<longleftrightarrow>
     pid' = pid \<and> prid' = prid \<and> dt' = dt \<and> opn' = opn"
  by (auto simp: same_key_def new_deal_def Let_def)

text \<open>The loop changes the deals only, and only by appending.\<close>

lemma store_deals_loop_frame:
  "Products (store_deals_loop s dt ds) = Products s \<and>
   ReturnsTab (store_deals_loop s dt ds) = ReturnsTab s \<and>
   (\<exists>extra. Deals (store_deals_loop s dt ds) = Deals s @ extra)"
  by (induction s dt ds rule: store_deals_loop.induct)
     (auto simp: find_product_id_def split: option.splits list.splits)

lemma existing_mono:
  "Deals s' = Deals s @ extra \<Longrightarrow> existing s pid prid dt opn \<le> existing s' pid prid dt opn"
  by (simp add: existing_def)

lemma store_deals_loop_grows:
  "existing s pid prid dt' opn \<le> existing (store_deals_loop s dt ds) pid prid dt' opn"
  using store_deals_loop_frame [of s dt ds] existing_mono by blast

text \<open>After the loop every decision with a known ticker has an event.\<close>

lemma store_deals_loop_records:
  "(pid, tk, opn, q) \<in> set ds \<Longrightarrow> find_product_id s tk = Some prid \<Longrightarrow>
   0 < existing (store_deals_loop s dt ds) pid prid dt opn"
proof (induction s dt ds rule: store_deals_loop.induct)
  case (1 s dt)
  then show ?case by simp
next
  case (2 s dt pid' tk' opn' q' rest)
  show ?case
  proof (cases "(pid, tk, opn, q) = (pid', tk', opn', q')")
    case same: True
    show ?thesis
    proof (cases "existing s pid prid dt opn = 0")
      case True
      let ?s' = "s\<lparr>Deals := Deals s @ [new_deal s pid prid opn q dt]\<rparr>"
      have "0 < existing ?s' pid prid dt opn"
        by (simp add: existing_def new_deal_key)
      also have "\<dots> \<le> existing (store_deals_loop ?s' dt rest) pid prid dt opn"
        by (rule store_deals_loop_grows)
      finally show ?thesis using same True "2.prems" by simp
    next
      case False
      then have "0 < existing s pid prid dt opn" by simp
      also have "\<dots> \<le> existing (store_deals_loop s dt rest) pid prid dt opn"
        by (rule store_deals_loop_grows)
      finally show ?thesis using same False "2.prems" by simp
    qed
  next
    case False
    then have mem: "(pid, tk, opn, q) \<in> set rest" using "2.prems" by auto
    show ?thesis
    proof (cases "find_product_id s tk'")
      case None
      with "2.IH"(1) [OF None mem "2.prems"(2)] show ?thesis by simp
    next
      case (Some prid')
      show ?thesis
      proof (cases "existing s pid' prid' dt opn' = 0")
        case True
        let ?s' = "s\<lparr>Deals := Deals s @ [new_deal s pid' prid' opn' q' dt]\<rparr>"
        have "find_product_id ?s' tk = Some prid"
          using "2.prems"(2) by (simp add: find_product_id_def)
        with "2.IH"(2) [OF Some True mem] show ?thesis using Some True by simp
      next
        case False
        with "2.IH"(3) [OF Some False mem "2.prems"(2)] show ?thesis using Some by simp
      qed
    qed
  qed
qed

text \<open>A loop whose decisions all have an event already changes nothing.\<close>

lemma store_deals_loop_noop:
  "(\<And>pid tk opn q prid. (pid, tk, opn, q) \<in> set ds \<Longrightarrow> find_product_id s tk = Some prid \<Longrightarrow>
      0 < existing s pid prid dt opn) \<Longrightarrow>
   store_deals_loop s dt ds = s"
proof (induction ds)
  case Nil
  then show ?case by simp
next
  case (Cons d ds)
  obtain pid tk opn q where d: "d = (pid, tk, opn, q)" by (cases d) auto
  have rest: "store_deals_loop s dt ds = s"
  proof (rule Cons.IH)
    fix pid tk opn q prid
    assume "(pid, tk, opn, q) \<in> set ds" and "find_product_id s tk = Some prid"
    then show "0 < existing s pid prid dt opn"
      using Cons.prems [of pid tk opn q prid] by simp
  qed
  show ?case
  proof (cases "find_product_id s tk")
    case None
    then show ?thesis using d rest by simp
  next
    case (Some prid)
    then have "0 < existing s pid prid dt opn" using Cons.prems [of pid tk opn q prid] d by simp
    then show ?thesis using d rest Some by simp
  qed
qed

lemma store_deals_loop_idem:
  "store_deals_loop (store_deals_loop s dt ds) dt ds = store_deals_loop s dt ds"
proof (rule store_deals_loop_noop)
  fix pid tk opn q prid
  assume mem: "(pid, tk, opn, q) \<in> set ds"
    and f: "find_product_id (store_deals_loop s dt ds) tk = Some prid"
  have "find_product_id s tk = Some prid"
    using f store_deals_loop_frame [of s dt ds] by (simp add: find_product_id_def)
  with mem show "0 < existing (store_deals_loop s dt ds) pid prid dt opn"
    by (rule store_deals_loop_records)
qed

lemma unique_events_insert:
  assumes "unique_events s" and "existing s pid prid dt opn = 0"
  shows "unique_events (s\<lparr>Deals := Deals s @ [new_deal s pid prid opn q dt]\<rparr>)"
  unfolding unique_events_def
proof (intro allI)
  fix pid' prid' dt' opn'
  show "existing (s\<lparr>Deals := Deals s @ [new_deal s pid prid opn q dt]\<rparr>) pid' prid' dt' opn' \<le> 1"
  proof (cases "pid' = pid \<and> prid' = prid \<and> dt' = dt \<and> opn' = opn")
    case True
    then show ?thesis using assms(2) by (simp add: existing_def)
  next
    case False
    then have "\<not> same_key pid' prid' dt' opn' (new_deal s pid prid opn q dt)"
      by (simp add: new_deal_other_key)
    moreover have "existing s pid' prid' dt' opn' \<le> 1"
      using assms(1) by (simp only: unique_events_def)
    ultimately show ?thesis by (simp add: existing_def)
  qed
qed

lemma store_deals_loop_unique:
  "unique_events s \<Longrightarrow> unique_events (store_deals_loop s dt ds)"
  by (induction s dt ds rule: store_deals_loop.induct)
     (auto simp: unique_events_insert split: option.splits)

lemma empty_ledger_unique: "Deals s = [] \<Longrightarrow> unique_events s"
  by (simp add: unique_events_def existing_def)

text \<open>
  Claim C3. Recording a decision list for a date a second time leaves the ledger as
  the first recording left it, for every ledger and every decision list; and recording
  keeps the ledger at no more than one event per (portfolio, product, date, operation).
  \<^verbatim>\<open>store_deals\<close> is the only code that inserts into \<^verbatim>\<open>Deals\<close>, and the empty ledger
  satisfies the bound (\<open>empty_ledger_unique\<close>).
\<close>

theorem store_deals_idempotent:
  "store_deals (store_deals s ds dt) ds dt = store_deals s ds dt \<and>
   ((\<forall>pid prid d opn. existing s pid prid d opn \<le> 1) \<longrightarrow>
    (\<forall>pid prid d opn. existing (store_deals s ds dt) pid prid d opn \<le> 1))"
proof
  show "store_deals (store_deals s ds dt) ds dt = store_deals s ds dt"
    by (simp add: store_deals_def store_deals_loop_idem)
  show "(\<forall>pid prid d opn. existing s pid prid d opn \<le> 1) \<longrightarrow>
    (\<forall>pid prid d opn. existing (store_deals s ds dt) pid prid d opn \<le> 1)"
    using store_deals_loop_unique [of s dt ds]
    by (simp only: unique_events_def store_deals_def split: if_splits) simp
qed

lemma example_store:
  "Deals (store_deals empty_ledger example_decisions (2024, 1, 15)) =
     [\<lparr> portefeuille_id = 1, produit_id = 1, type_operation = achat, quantite = 20,
        date = (2024, 1, 15), volatilite_periode = None, rendement_periode = Some (1/100) \<rparr>]"
  by (simp add: store_deals_def empty_ledger_def example_decisions_def find_product_id_def
      existing_def same_key_def new_deal_def trailing_rows_def mean_def valid_def)

text \<open>
  The theorem on the empty ledger and a list that proposes the same purchase twice
  and one for an unknown ticker: one event is recorded, once.
\<close>

theorem store_deals_idempotent_witness:
  "(\<forall>pid prid d opn. existing empty_ledger pid prid d opn \<le> 1) \<and>
   (\<forall>pid prid d opn.
      existing (store_deals empty_ledger example_decisions (2024, 1, 15)) pid prid d opn \<le> 1) \<and>
   store_deals (store_deals empty_ledger example_decisions (2024, 1, 15))
     example_decisions (2024, 1, 15) =
   store_deals empty_ledger example_decisions (2024, 1, 15) \<and>
   length (Deals (store_deals empty_ledger example_decisions (2024, 1, 15))) = 1"
proof -
  have u: "\<forall>pid prid d opn. existing empty_ledger pid prid d opn \<le> 1"
    by (simp add: existing_def empty_ledger_def)
  from store_deals_idempotent [of empty_ledger example_decisions "(2024, 1, 15)"] u
  show ?thesis by (simp add: example_store)
qed

section \<open>Recording safe decisions\<close>

text \<open>
  Appending a deal adds its signed quantity to the positions of its portfolio, once for
  every product that the join matches with it.
\<close>

lemma position_rows_append:
  "position_rows (s\<lparr>Deals := Deals s @ [e]\<rparr>) p tk asof =
     position_rows s p tk asof @
     (if portefeuille_id e = p \<and> date e \<le> asof
      then replicate (matches s (produit_id e) tk) e else [])"
proof -
  have "concat (map (\<lambda>q. if produit_id e = prod_id q \<and> ticker q = tk then [e] else []) ps) =
        replicate (length (filter (\<lambda>q. prod_id q = produit_id e \<and> ticker q = tk) ps)) e" for ps
    by (induction ps) auto
  then show ?thesis
    by (auto simp: position_rows_def matches_def)
qed

lemma position_append:
  "get_current_position (s\<lparr>Deals := Deals s @ [e]\<rparr>) p tk asof =
     get_current_position s p tk asof +
     (if portefeuille_id e = p \<and> date e \<le> asof
      then int (matches s (produit_id e) tk) * signed_quantity e else 0)"
  by (simp add: get_current_position_def position_rows_append sum_list_replicate)

lemma find_product_id_Some:
  "find_product_id s tk = Some prid \<Longrightarrow>
   \<exists>P \<in> set (Products s). ticker P = tk \<and> prod_id P = prid"
proof -
  assume a: "find_product_id s tk = Some prid"
  then obtain P rest where f: "filter (\<lambda>p. ticker p = tk) (Products s) = P # rest" and "prod_id P = prid"
    by (auto simp: find_product_id_def split: list.splits)
  then have "P \<in> set (filter (\<lambda>p. ticker p = tk) (Products s))" by simp
  then show ?thesis using \<open>prod_id P = prid\<close> by auto
qed

lemma filter_id_distinct:
  "distinct (map prod_id ps) \<Longrightarrow> P \<in> set ps \<Longrightarrow> filter (\<lambda>p. prod_id p = prod_id P) ps = [P]"
proof (induction ps)
  case Nil
  then show ?case by simp
next
  case (Cons a ps)
  show ?case
  proof (cases "a = P")
    case True
    have "prod_id P \<notin> set (map prod_id ps)"
      using Cons.prems(1) True by simp
    then have "\<forall>x \<in> set ps. prod_id x \<noteq> prod_id P"
      by (metis image_eqI set_map)
    then have "filter (\<lambda>p. prod_id p = prod_id P) ps = []"
      by (simp add: filter_empty_conv)
    then show ?thesis using True by simp
  next
    case False
    then have "P \<in> set ps" using Cons.prems(2) by simp
    then have "prod_id a \<noteq> prod_id P" using Cons.prems(1) by force
    then show ?thesis using Cons \<open>P \<in> set ps\<close> by simp
  qed
qed

lemma matches_found:
  assumes "distinct (map prod_id (Products s))" and "find_product_id s tk' = Some prid"
  shows "matches s prid tk = (if tk = tk' then 1 else 0)"
proof -
  from find_product_id_Some [OF assms(2)] obtain P where
    P: "P \<in> set (Products s)" "ticker P = tk'" "prod_id P = prid" by auto
  have "filter (\<lambda>p. prod_id p = prid \<and> ticker p = tk) (Products s) =
        filter (\<lambda>p. ticker p = tk) (filter (\<lambda>p. prod_id p = prid) (Products s))"
    by (simp add: conj_commute)
  also have "\<dots> = filter (\<lambda>p. ticker p = tk) [P]"
    using filter_id_distinct [OF assms(1) P(1)] P(3) by simp
  finally show ?thesis using P(2) by (auto simp: matches_def)
qed

lemma find_product_id_inj:
  assumes "distinct (map prod_id (Products s))"
    and "find_product_id s tk = Some prid" and "find_product_id s tk' = Some prid"
  shows "tk = tk'"
proof (rule ccontr)
  assume "tk \<noteq> tk'"
  then have "matches s prid tk = 0" using matches_found [OF assms(1,3)] by simp
  moreover have "matches s prid tk = 1" using matches_found [OF assms(1,2)] by simp
  ultimately show False by simp
qed

lemma new_deal_fields:
  "portefeuille_id (new_deal s pid prid opn q dt) = pid"
  "produit_id (new_deal s pid prid opn q dt) = prid"
  "date (new_deal s pid prid opn q dt) = dt"
  "type_operation (new_deal s pid prid opn q dt) = opn"
  "quantite (new_deal s pid prid opn q dt) = q"
  by (simp_all add: new_deal_def Let_def)

lemma covered_insert:
  assumes ids: "distinct (map prod_id (Products s0))"
    and prods: "Products s = Products s0"
    and safe: "safe_decision s0 dt (pid, tk, opn, q)"
    and found: "find_product_id s tk = Some prid"
    and fresh: "existing s pid prid dt opn = 0"
    and cov: "covered s0 dt s"
  shows "covered s0 dt (s\<lparr>Deals := Deals s @ [new_deal s pid prid opn q dt]\<rparr>)"
  unfolding covered_def
proof (intro allI impI)
  fix p tk2
  assume nonneg: "0 \<le> get_current_position s0 p tk2 dt"
  let ?e = "new_deal s pid prid opn q dt"
  let ?s' = "s\<lparr>Deals := Deals s @ [?e]\<rparr>"
  have ids': "distinct (map prod_id (Products s))" using ids prods by simp
  have found0: "find_product_id s0 tk = Some prid"
    using found prods by (simp add: find_product_id_def)
  have m: "matches s prid t = (if t = tk then 1 else 0)" for t
    by (rule matches_found [OF ids' found])
  have pos: "get_current_position ?s' p tk2 dt =
      get_current_position s p tk2 dt + (if p = pid \<and> tk2 = tk then signed_quantity ?e else 0)"
    by (simp add: position_append new_deal_fields m)
  have sq: "signed_quantity ?e = (case opn of achat \<Rightarrow> q | vente \<Rightarrow> - q)"
    by (cases opn) (simp_all add: signed_quantity_def new_deal_fields)
  have q: "0 < q" "opn = vente \<longrightarrow> q \<le> get_current_position s0 pid tk dt"
    using safe by (simp_all add: safe_decision_def)
  from cov nonneg have c1: "0 \<le> get_current_position s p tk2 dt"
    and c2: "\<And>prid'. find_product_id s0 tk2 = Some prid' \<Longrightarrow> existing s p prid' dt vente = 0 \<Longrightarrow>
           get_current_position s0 p tk2 dt \<le> get_current_position s p tk2 dt"
    by (auto simp: covered_def)
  have ex: "existing ?s' p prid' dt vente =
      existing s p prid' dt vente + (if p = pid \<and> prid' = prid \<and> opn = vente then 1 else 0)" for prid'
    by (auto simp: existing_def same_key_def new_deal_fields)
  show "0 \<le> get_current_position ?s' p tk2 dt \<and>
        (\<forall>prid'. find_product_id s0 tk2 = Some prid' \<longrightarrow> existing ?s' p prid' dt vente = 0 \<longrightarrow>
           get_current_position s0 p tk2 dt \<le> get_current_position ?s' p tk2 dt)"
  proof (cases "p = pid \<and> tk2 = tk")
    case False
    then have same: "get_current_position ?s' p tk2 dt = get_current_position s p tk2 dt"
      using pos by auto
    show ?thesis
    proof (intro conjI allI impI)
      show "0 \<le> get_current_position ?s' p tk2 dt" using same c1 by simp
    next
      fix prid'
      assume f: "find_product_id s0 tk2 = Some prid'" and z: "existing ?s' p prid' dt vente = 0"
      from z have "existing s p prid' dt vente = 0" by (simp add: ex split: if_splits)
      from c2 [OF f this] show "get_current_position s0 p tk2 dt \<le> get_current_position ?s' p tk2 dt"
        using same by simp
    qed
  next
    case True
    show ?thesis
    proof (cases opn)
      case achat
      then have up: "get_current_position ?s' p tk2 dt = get_current_position s p tk2 dt + q"
        using pos True sq by simp
      show ?thesis
      proof (intro conjI allI impI)
        show "0 \<le> get_current_position ?s' p tk2 dt" using up c1 q(1) by simp
      next
        fix prid'
        assume f: "find_product_id s0 tk2 = Some prid'" and z: "existing ?s' p prid' dt vente = 0"
        from z have "existing s p prid' dt vente = 0" by (simp add: ex split: if_splits)
        from c2 [OF f this] show "get_current_position s0 p tk2 dt \<le> get_current_position ?s' p tk2 dt"
          using up q(1) by simp
      qed
    next
      case vente
      then have down: "get_current_position ?s' p tk2 dt = get_current_position s p tk2 dt - q"
        using pos True sq by simp
      have "existing s p prid dt vente = 0" using fresh True vente by simp
      with c2 [of prid] found0 True
      have "get_current_position s0 p tk2 dt \<le> get_current_position s p tk2 dt" by simp
      moreover have "q \<le> get_current_position s0 p tk2 dt" using q(2) vente True by simp
      ultimately have ok: "0 \<le> get_current_position ?s' p tk2 dt" using down by simp
      show ?thesis
      proof (intro conjI allI impI)
        show "0 \<le> get_current_position ?s' p tk2 dt" by (rule ok)
      next
        fix prid'
        assume f: "find_product_id s0 tk2 = Some prid'" and z: "existing ?s' p prid' dt vente = 0"
        from f found0 True have "prid' = prid" by simp
        with ex [of prid'] True vente
        have "existing ?s' p prid' dt vente = existing s p prid' dt vente + 1" by simp
        with z have False by simp
        then show "get_current_position s0 p tk2 dt \<le> get_current_position ?s' p tk2 dt" ..
      qed
    qed
  qed
qed

lemma store_deals_loop_covered:
  assumes ids: "distinct (map prod_id (Products s0))"
  shows "Products s = Products s0 \<Longrightarrow> \<forall>x \<in> set ds. safe_decision s0 dt x \<Longrightarrow>
         covered s0 dt s \<Longrightarrow> covered s0 dt (store_deals_loop s dt ds)"
proof (induction s dt ds rule: store_deals_loop.induct)
  case (1 s dt)
  then show ?case by simp
next
  case (2 s dt pid tk opn q rest)
  show ?case
  proof (cases "find_product_id s tk")
    case None
    with 2 show ?thesis by simp
  next
    case (Some prid)
    show ?thesis
    proof (cases "existing s pid prid dt opn = 0")
      case True
      let ?s' = "s\<lparr>Deals := Deals s @ [new_deal s pid prid opn q dt]\<rparr>"
      have "covered s0 dt ?s'"
        using covered_insert [OF ids "2.prems"(1) _ Some True "2.prems"(3)] "2.prems"(2) by simp
      moreover have "Products ?s' = Products s0" using "2.prems"(1) by simp
      ultimately have "covered s0 dt (store_deals_loop ?s' dt rest)"
        using "2.IH"(2) [OF Some True] "2.prems"(2) by simp
      then show ?thesis using Some True by simp
    next
      case False
      with 2 Some show ?thesis by simp
    qed
  qed
qed

lemma covered_refl: "covered s dt s"
  by (simp add: covered_def)

lemma recording_keeps_positions_nonnegative:
  assumes "distinct (map prod_id (Products s))"
    and "\<forall>x \<in> set ds. safe_decision s dt x"
    and "0 \<le> get_current_position s p tk dt"
  shows "0 \<le> get_current_position (store_deals s ds dt) p tk dt"
proof -
  have "covered s dt (store_deals_loop s dt ds)"
    using store_deals_loop_covered [OF assms(1) refl assms(2) covered_refl] .
  then show ?thesis using assms(3) by (auto simp: store_deals_def covered_def)
qed

text \<open>
  Claim C2, as amended. Every decision that one of the three policies emits has a
  positive quantity, and every sale is for at most the position of the instrument as of
  the decision date; so recording the decisions drives no position as of that date
  below zero (product ids are unique, as the primary key makes them). For the
  low-turnover policy the draw \<open>r\<close> is one that \<^verbatim>\<open>random.randint(15, 25)\<close> can return.
\<close>

theorem decisions_positive_and_covered:
  assumes "15 \<le> r" and "r \<le> 25"
    and "apply_low_risk_strategy s data pid dt = Inr ds \<or>
         apply_high_yield_strategy s data pid dt = Inr ds \<or>
         apply_low_turnover_strategy r s data pid dt = ds"
  shows "(\<forall>(p, tk, opn, q) \<in> set ds.
            0 < q \<and> (opn = vente \<longrightarrow> q \<le> get_current_position s p tk dt)) \<and>
         (distinct (map prod_id (Products s)) \<longrightarrow>
            (\<forall>p tk. 0 \<le> get_current_position s p tk dt \<longrightarrow>
               0 \<le> get_current_position (store_deals s ds dt) p tk dt))"
proof -
  have safe: "\<forall>x \<in> set ds. safe_decision s dt x"
    using assms(3)
  proof (elim disjE)
    assume a: "apply_low_risk_strategy s data pid dt = Inr ds"
    show ?thesis
    proof
      fix x assume "x \<in> set ds"
      with low_risk_loop_origin [of s pid dt data "[]" ds x] a show "safe_decision s dt x"
        by (auto simp: apply_low_risk_strategy_def dest: low_risk_decision_safe)
    qed
  next
    assume a: "apply_high_yield_strategy s data pid dt = Inr ds"
    show ?thesis
    proof
      fix x assume "x \<in> set ds"
      with high_yield_loop_origin [of s pid dt data "[]" ds x] a show "safe_decision s dt x"
        by (auto simp: apply_high_yield_strategy_def dest: high_yield_decision_safe)
    qed
  next
    assume "apply_low_turnover_strategy r s data pid dt = ds"
    then show ?thesis
      using low_turnover_scan_safe [OF assms(1), of s pid dt data]
      by (auto simp: apply_low_turnover_strategy_def split: if_splits)
  qed
  show ?thesis
  proof
    from safe show "\<forall>(p, tk, opn, q) \<in> set ds.
            0 < q \<and> (opn = vente \<longrightarrow> q \<le> get_current_position s p tk dt)"
      by (auto simp: safe_decision_def)
    show "distinct (map prod_id (Products s)) \<longrightarrow>
            (\<forall>p tk. 0 \<le> get_current_position s p tk dt \<longrightarrow>
               0 \<le> get_current_position (store_deals s ds dt) p tk dt)"
      using recording_keeps_positions_nonnegative [OF _ safe] by blast
  qed
qed

text \<open>
  The theorem at the example, once for each policy: the conservative policy sells 5
  and buys 20, the high-yield policy sells 7 and buys 25, the low-turnover policy sells
  10 with the draw 20, and the position of \<^verbatim>\<open>AAA\<close> stays at or above zero.
\<close>

theorem decisions_positive_and_covered_witness:
  "(15::int) \<le> 20 \<and> (20::int) \<le> 25 \<and>
   distinct (map prod_id (Products example_db)) \<and>
   0 \<le> get_current_position example_db 1 ''AAA'' (2024, 1, 15) \<and>
   apply_low_risk_strategy example_db example_data 1 (2024, 1, 15) =
     Inr [(1, ''AAA'', vente, 5), (1, ''BBB'', achat, 20)] \<and>
   5 \<le> get_current_position example_db 1 ''AAA'' (2024, 1, 15) \<and>
   0 \<le> get_current_position
          (store_deals example_db [(1, ''AAA'', vente, 5), (1, ''BBB'', achat, 20)] (2024, 1, 15))
          1 ''AAA'' (2024, 1, 15) \<and>
   apply_high_yield_strategy example_db example_data 1 (2024, 1, 15) =
     Inr [(1, ''AAA'', vente, 7), (1, ''BBB'', achat, 25)] \<and>
   7 \<le> get_current_position example_db 1 ''AAA'' (2024, 1, 15) \<and>
   0 \<le> get_current_position
          (store_deals example_db [(1, ''AAA'', vente, 7), (1, ''BBB'', achat, 25)] (2024, 1, 15))
          1 ''AAA'' (2024, 1, 15) \<and>
   apply_low_turnover_strategy 20 example_db example_data 1 (2024, 1, 15) =
     [(1, ''AAA'', vente, 10)] \<and>
   10 \<le> get_current_position example_db 1 ''AAA'' (2024, 1, 15) \<and>
   0 \<le> get_current_position
          (store_deals example_db [(1, ''AAA'', vente, 10)] (2024, 1, 15))
          1 ''AAA'' (2024, 1, 15)"
proof -
  have r: "(15::int) \<le> 20" "(20::int) \<le> 25" by simp_all
  have d: "distinct (map prod_id (Products example_db))" by (simp add: example_db_def)
  have p: "0 \<le> get_current_position example_db 1 ''AAA'' (2024, 1, 15)"
    by (simp add: example_position_AAA)
  note a = decisions_positive_and_covered [OF r, of example_db example_data 1 "(2024, 1, 15)",
      OF disjI1 [OF example_low_risk]]
  note b = decisions_positive_and_covered [OF r, of example_db example_data 1 "(2024, 1, 15)",
      OF disjI2 [OF disjI1 [OF example_high_yield]]]
  note c = decisions_positive_and_covered [OF r, of example_db example_data 1 "(2024, 1, 15)",
      OF disjI2 [OF disjI2 [OF example_low_turnover]]]
  from a have a1: "5 \<le> get_current_position example_db 1 ''AAA'' (2024, 1, 15)" by simp
  from a d p have a2: "0 \<le> get_current_position
          (store_deals example_db [(1, ''AAA'', vente, 5), (1, ''BBB'', achat, 20)] (2024, 1, 15))
          1 ''AAA'' (2024, 1, 15)" by blast
  from b have b1: "7 \<le> get_current_position example_db 1 ''AAA'' (2024, 1, 15)" by simp
  from b d p have b2: "0 \<le> get_current_position
          (store_deals example_db [(1, ''AAA'', vente, 7), (1, ''BBB'', achat, 25)] (2024, 1, 15))
          1 ''AAA'' (2024, 1, 15)" by blast
  from c have c1: "10 \<le> get_current_position example_db 1 ''AAA'' (2024, 1, 15)" by simp
  from c d p have c2: "0 \<le> get_current_position
          (store_deals example_db [(1, ''AAA'', vente, 10)] (2024, 1, 15))
          1 ''AAA'' (2024, 1, 15)" by blast
  from r d p a1 a2 b1 b2 c1 c2 example_low_risk example_high_yield example_low_turnover
  show ?thesis by (intro conjI)
qed

lemma backdated_positions:
  "get_current_position backdated_db 1 ''AAA'' (2024, 1, 15) = 25"
  "get_current_position backdated_db 1 ''AAA'' (2024, 1, 22) = 7"
  by (simp_all add: get_current_position_def position_rows_def backdated_db_def signed_quantity_def)

lemma backdated_high_yield:
  "apply_high_yield_strategy backdated_db [(''AAA'', Some falling_returns)] 1 (2024, 1, 15) =
     Inr [(1, ''AAA'', vente, 18)]"
proof -
  have a: "high_yield_decision 1 ''AAA'' 25 (Some (- (1/25))) (Some (- (1/25))) (Some (- (1/25))) v =
             Inr [(1, ''AAA'', vente, 18)]" for v
    by (simp add: high_yield_decision_def flt_def py_int_def)
  show ?thesis
    by (simp add: apply_high_yield_strategy_def columns_not_empty falling_stats
        backdated_positions a)
qed

text \<open>
  Claim C2 as it is written says that applying the decisions can never drive a position
  negative. The position that the policies read counts the deals dated up to the decision
  date only. On the ledger with a purchase of 25 on 2024-01-01 and a sale of 18 dated
  2024-01-22, the high-yield policy deciding for 2024-01-15 sees 25 and sells 18; once
  that is recorded the position as of 2024-01-15 is 7, and the position as of
  2024-01-22, which was 7, is \<open>-11\<close>.
\<close>

theorem backdated_sale_counterexample:
  "apply_high_yield_strategy backdated_db [(''AAA'', Some falling_returns)] 1 (2024, 1, 15) =
     Inr [(1, ''AAA'', vente, 18)] \<and>
   get_current_position backdated_db 1 ''AAA'' (2024, 1, 15) = 25 \<and>
   get_current_position backdated_db 1 ''AAA'' (2024, 1, 22) = 7 \<and>
   get_current_position (store_deals backdated_db [(1, ''AAA'', vente, 18)] (2024, 1, 15))
     1 ''AAA'' (2024, 1, 15) = 7 \<and>
   get_current_position (store_deals backdated_db [(1, ''AAA'', vente, 18)] (2024, 1, 15))
     1 ''AAA'' (2024, 1, 22) = - 11"
proof -
  have "get_current_position (store_deals backdated_db [(1, ''AAA'', vente, 18)] (2024, 1, 15))
     1 ''AAA'' (2024, 1, 15) = 7"
    by (simp add: store_deals_def find_product_id_def existing_def same_key_def new_deal_def
        trailing_rows_def get_current_position_def position_rows_def signed_quantity_def
        backdated_db_def)
  moreover have "get_current_position (store_deals backdated_db [(1, ''AAA'', vente, 18)] (2024, 1, 15))
     1 ''AAA'' (2024, 1, 22) = - 11"
    by (simp add: store_deals_def find_product_id_def existing_def same_key_def new_deal_def
        trailing_rows_def get_current_position_def position_rows_def signed_quantity_def
        backdated_db_def)
  ultimately show ?thesis
    using backdated_high_yield backdated_positions by simp
qed

section \<open>Weekly returns and metrics\<close>

lemma clip_bounds: "lo \<le> hi \<Longrightarrow> lo \<le> clip x lo hi \<and> clip x lo hi \<le> hi"
  by (auto simp: clip_def)

lemma weekly_loop_clipped:
  "weekly_loop pick s pid ms pv acc = Inr wr \<Longrightarrow>
   \<forall>x \<in> set acc. - 0.10 \<le> sreturn x \<and> sreturn x \<le> 0.10 \<Longrightarrow>
   \<forall>x \<in> set wr. - 0.10 \<le> sreturn x \<and> sreturn x \<le> 0.10"
proof (induction ms arbitrary: pv acc)
  case Nil
  then show ?case by simp
next
  case (Cons monday rest)
  from Cons.prems(1) obtain v r where
    val: "get_portfolio_value_and_return pick s pid monday = Inr (v, r)"
    by (auto split: sum.splits)
  let ?acc' = "(case pv of None \<Rightarrow> acc
     | Some p \<Rightarrow> if p > 0
         then acc @ [\<lparr> sdate = monday, sreturn = clip (v / p - 1) (- 0.10) 0.10, svalue = v \<rparr>]
         else acc)"
  have run: "weekly_loop pick s pid rest (if v > 0 then Some v else pv) ?acc' = Inr wr"
    using Cons.prems(1) val by simp
  have "\<forall>x \<in> set ?acc'. - 0.10 \<le> sreturn x \<and> sreturn x \<le> 0.10"
    using Cons.prems(2) clip_bounds [of "- 0.10" "0.10"]
    by (auto split: option.splits)
  with Cons.IH [OF run] show ?case .
qed

lemma example_positions:
  "get_portfolio_positions sqlite_bare_row example_db 1 (2024, 1, 1) = [(''AAA'', Stock, 10)]"
  "get_portfolio_positions sqlite_bare_row example_db 1 (2024, 1, 8) = [(''AAA'', Stock, 10)]"
  "get_portfolio_positions sqlite_bare_row example_db 1 (2024, 1, 15) = [(''AAA'', Stock, 10)]"
  by (simp_all add: get_portfolio_positions_def DailyPositions_def joined_def running_def
      delta_def example_db_def sqlite_bare_row_def)

lemma example_values:
  "get_portfolio_value_and_return sqlite_bare_row example_db 1 (2024, 1, 1) = Inr (1000, 0)"
  "get_portfolio_value_and_return sqlite_bare_row example_db 1 (2024, 1, 8) = Inr (1050, 1/20)"
  "get_portfolio_value_and_return sqlite_bare_row example_db 1 (2024, 1, 15) = Inr (1200, 1/7)"
  by (simp_all add: get_portfolio_value_and_return_def example_positions
      get_asset_price_and_return_def) (simp_all add: example_db_def)

lemma example_weekly:
  "get_weekly_returns sqlite_bare_row example_db 1 example_mondays = Inr example_samples"
  by (simp add: get_weekly_returns_def example_mondays_def example_samples_def
      example_values clip_def)

lemma example_weekly_short:
  "get_weekly_returns sqlite_bare_row example_db 1 [(2024, 1, 1), (2024, 1, 8)] =
     Inr [\<lparr> sdate = (2024, 1, 8), sreturn = 1/20, svalue = 1050 \<rparr>]"
  by (simp add: get_weekly_returns_def example_values clip_def)

text \<open>
  Claim C8. Every weekly return sample that the performance engine produces, for every
  portfolio and every list of Mondays, has its return between \<open>-0.10\<close> and \<open>0.10\<close>.
\<close>

theorem weekly_returns_clipped:
  "get_weekly_returns pick s pid mondays = Inr wr \<Longrightarrow>
   \<forall>x \<in> set wr. - 0.10 \<le> sreturn x \<and> sreturn x \<le> 0.10"
  using weekly_loop_clipped [of pick s pid mondays None "[]" wr]
  by (simp add: get_weekly_returns_def)

text \<open>
  The theorem on the example: the value goes from 1000 to 1050 to 1200, the second
  ratio minus one is a seventh, and the sample records a tenth.
\<close>

theorem weekly_returns_clipped_witness:
  "get_weekly_returns sqlite_bare_row example_db 1 example_mondays = Inr example_samples \<and>
   last example_samples \<in> set example_samples \<and>
   sreturn (last example_samples) = 1/10 \<and>
   - 0.10 \<le> sreturn (last example_samples) \<and> sreturn (last example_samples) \<le> 0.10"
proof -
  have m: "last example_samples \<in> set example_samples"
    by (simp add: example_samples_def)
  from weekly_returns_clipped [OF example_weekly] m
  have "- 0.10 \<le> sreturn (last example_samples) \<and> sreturn (last example_samples) \<le> 0.10"
    by blast
  with m example_weekly show ?thesis
    by (simp add: example_samples_def)
qed

text \<open>
  Claim C9. When the range yields fewer than two weekly samples, the metrics operation
  returns the all-zero metrics and raises nothing.
\<close>

theorem few_samples_zero_metrics:
  "get_weekly_returns pick s pid mondays = Inr wr \<Longrightarrow> length wr < 2 \<Longrightarrow>
   calculate_performance_metrics pick s pid mondays = Inr zero_metrics \<and>
   rendement_total zero_metrics = 0 \<and> rendement_annualise zero_metrics = 0 \<and>
   volatilite_annualisee zero_metrics = 0 \<and> ratio_sharpe zero_metrics = 0 \<and>
   drawdown_max zero_metrics = 0"
  by (simp add: calculate_performance_metrics_def metrics_of_def zero_metrics_def)

text \<open>The theorem on the first two Mondays of the example, which give one sample.\<close>

theorem few_samples_zero_metrics_witness:
  "get_weekly_returns sqlite_bare_row example_db 1 [(2024, 1, 1), (2024, 1, 8)] =
     Inr [\<lparr> sdate = (2024, 1, 8), sreturn = 1/20, svalue = 1050 \<rparr>] \<and>
   length [\<lparr> sdate = (2024, 1, 8), sreturn = 1/20, svalue = 1050 \<rparr>] < 2 \<and>
   calculate_performance_metrics sqlite_bare_row example_db 1 [(2024, 1, 1), (2024, 1, 8)] =
     Inr zero_metrics"
proof -
  have l: "length [\<lparr> sdate = (2024, 1, 8), sreturn = 1/20, svalue = (1050::real) \<rparr>] < 2"
    by simp
  from few_samples_zero_metrics [OF example_weekly_short l] example_weekly_short
  show ?thesis by simp
qed

lemma valid_Some: "valid (map Some rs) = rs"
  by (induction rs) (simp_all add: valid_def)

lemma std_Some: "2 \<le> length rs \<Longrightarrow> std (map Some rs) = Some (sample_stdev rs)"
  by (simp add: std_def valid_Some sample_stdev_def Let_def)

lemma prod_list_pos: "(\<And>x. x \<in> set xs \<Longrightarrow> 0 < x) \<Longrightarrow> 0 < prod_list xs" for xs :: "real list"
  by (induction xs) simp_all

lemma clipped_product_pos:
  assumes "get_weekly_returns pick s pid mondays = Inr wr"
  shows "0 < prod_list (map (\<lambda>x. 1 + sreturn x) wr)"
proof (rule prod_list_pos)
  fix y assume "y \<in> set (map (\<lambda>x. 1 + sreturn x) wr)"
  then obtain x where x: "x \<in> set wr" "y = 1 + sreturn x" by auto
  have "\<forall>x \<in> set wr. - 0.10 \<le> sreturn x \<and> sreturn x \<le> 0.10"
    using weekly_loop_clipped [of pick s pid mondays None "[]" wr] assms
    by (simp add: get_weekly_returns_def)
  with x show "0 < y" by force
qed

text \<open>
  Claim C7. For a weekly-return sequence of at least two samples the metrics are: the
  total return is the product of the \<open>1 + r\<close> minus 1; the annualised return is
  \<open>1 + total\<close> to the power 52 over the number of samples, minus 1 (the base is
  positive); the annualised volatility is the sample standard deviation times the root
  of 52; and the Sharpe ratio is the annualised return minus 0.02 over the volatility,
  or 0 when the volatility is 0.
\<close>

theorem metrics_formulas:
  assumes "get_weekly_returns pick s pid mondays = Inr wr" and "2 \<le> length wr"
  shows "\<exists>m. calculate_performance_metrics pick s pid mondays = Inr m \<and>
     rendement_total m = prod_list (map (\<lambda>x. 1 + sreturn x) wr) - 1 \<and>
     0 < 1 + rendement_total m \<and>
     rendement_annualise m = (1 + rendement_total m) powr (52 / real (length wr)) - 1 \<and>
     volatilite_annualisee m = sample_stdev (map sreturn wr) * sqrt 52 \<and>
     ratio_sharpe m =
       (if volatilite_annualisee m = 0 then 0
        else (rendement_annualise m - 0.02) / volatilite_annualisee m)"
proof -
  have ne: "wr \<noteq> []" "\<not> length wr < 2" using assms(2) by auto
  have pos: "0 < prod_list (map (\<lambda>x. 1 + sreturn x) wr)"
    using assms(1) by (rule clipped_product_pos)
  have sd: "std (map (\<lambda>x. Some (sreturn x)) wr) = Some (sample_stdev (map sreturn wr))"
    using assms(2) std_Some [of "map sreturn wr"] by (simp add: comp_def)
  show ?thesis
    using pos
    by (simp add: calculate_performance_metrics_def assms(1) metrics_of_def ne Let_def sd
        risk_free_rate_def comp_def)
qed

text \<open>The theorem on the two samples of the example.\<close>

theorem metrics_formulas_witness:
  "get_weekly_returns sqlite_bare_row example_db 1 example_mondays = Inr example_samples \<and>
   2 \<le> length example_samples \<and>
   (\<exists>m. calculate_performance_metrics sqlite_bare_row example_db 1 example_mondays = Inr m \<and>
     rendement_total m = prod_list (map (\<lambda>x. 1 + sreturn x) example_samples) - 1 \<and>
     0 < 1 + rendement_total m \<and>
     rendement_annualise m = (1 + rendement_total m) powr (52 / real (length example_samples)) - 1 \<and>
     volatilite_annualisee m = sample_stdev (map sreturn example_samples) * sqrt 52 \<and>
     ratio_sharpe m =
       (if volatilite_annualisee m = 0 then 0
        else (rendement_annualise m - 0.02) / volatilite_annualisee m))"
proof -
  have l: "2 \<le> length example_samples" by (simp add: example_samples_def)
  from metrics_formulas [OF example_weekly l] example_weekly l
  show ?thesis by blast
qed

text \<open>On the example the total return is 15.5 percent.\<close>

lemma example_total_return:
  "prod_list (map (\<lambda>x. 1 + sreturn x) example_samples) - 1 = 31/200"
  by (simp add: example_samples_def)

end
